theory Spec2Isabelle
  imports Complex_Main "HOL-Library.Word"
begin

section \<open>JavaScript values used by the status checker\<close>

text \<open>
  A JavaScript string is a sequence of 16-bit code units. \<open>lit\<close> turns the
  ASCII literals of the source into such sequences.
\<close>

type_synonym jsstring = "16 word list"

definition lit :: "string \<Rightarrow> jsstring" where
  "lit s = map (\<lambda>c. of_nat (of_char c)) s"

text \<open>
  A number is a double: a finite value, an infinity or NaN. The component
  never computes with numbers, it only tests whether they are truthy and
  passes them on, so the finite ones are kept as reals.
\<close>

datatype jsnum = Fin real | PosInf | NegInf | NaN

datatype jsval =
    JUndefined
  | JNull
  | JBool bool
  | JNum jsnum
  | JStr jsstring
  | JArr "jsval list"
  | JObj "(jsstring \<times> jsval) list"

text \<open>ToBoolean: undefined, null, false, 0, NaN and the empty string are falsy.\<close>

fun truthy :: "jsval \<Rightarrow> bool" where
  "truthy JUndefined = False"
| "truthy JNull = False"
| "truthy (JBool b) = b"
| "truthy (JNum n) = (n \<noteq> Fin 0 \<and> n \<noteq> NaN)"
| "truthy (JStr s) = (s \<noteq> [])"
| "truthy (JArr xs) = True"
| "truthy (JObj kvs) = True"

text \<open>Thrown values: the errors that can reach the \<open>catch\<close> block, each with its message.\<close>

datatype js_error = TypeError jsstring | SyntaxError jsstring | Error jsstring

fun message :: "js_error \<Rightarrow> jsstring" where
  "message (TypeError m) = m"
| "message (SyntaxError m) = m"
| "message (Error m) = m"

subsection \<open>String operations\<close>

definition startsWith :: "jsstring \<Rightarrow> jsstring \<Rightarrow> bool" where
  "startsWith s p = (take (length p) s = p)"

text \<open>
  The code units \<open>String.prototype.trim\<close> strips: the WhiteSpace and
  LineTerminator characters of ECMAScript (tab, LF, VT, FF, CR, space, NBSP,
  U+1680, U+2000 to U+200A, U+2028, U+2029, U+202F, U+205F, U+3000, U+FEFF).
\<close>

definition isWhiteSpace :: "16 word \<Rightarrow> bool" where
  "isWhiteSpace c = (c \<in> set [9, 10, 11, 12, 13, 32, 160, 5760,
      8192, 8193, 8194, 8195, 8196, 8197, 8198, 8199, 8200, 8201, 8202,
      8232, 8233, 8239, 8287, 12288, 65279])"

definition trim :: "jsstring \<Rightarrow> jsstring" where
  "trim s = rev (dropWhile isWhiteSpace (rev (dropWhile isWhiteSpace s)))"

text \<open>The decimal digits of a natural number, as a template literal prints an integer.\<close>

fun show_nat :: "nat \<Rightarrow> jsstring" where
  "show_nat n = (if n < 10 then [of_nat (48 + n)]
                 else show_nat (n div 10) @ [of_nat (48 + n mod 10)])"

declare show_nat.simps [simp del]

subsection \<open>Objects\<close>

text \<open>
  An object is the list of its own properties in insertion order. Writing a
  property replaces the value of an existing key in place and otherwise adds
  the key at the end; this is what the spread \<open>{...result, id: v}\<close> does
  with \<open>id\<close>.
\<close>

fun set_prop :: "(jsstring \<times> jsval) list \<Rightarrow> jsstring \<Rightarrow> jsval \<Rightarrow> (jsstring \<times> jsval) list" where
  "set_prop [] k v = [(k, v)]"
| "set_prop ((k', v') # kvs) k v =
     (if k' = k then (k, v) # kvs else (k', v') # set_prop kvs k v)"

section \<open>The environment of one check\<close>

record request =
  endpoint :: jsstring
  http_method :: jsstring
  headers :: "(jsstring \<times> jsstring) list"
  body :: jsstring

text \<open>
  A response as the code reads it: \<open>response.ok\<close>, \<open>response.status\<close>,
  and the outcome of \<open>await response.json()\<close>, which rejects when the body
  is not JSON.
\<close>

datatype response = Response (ok: bool) (http_status: nat) (json: "js_error + jsval")

datatype fetch_result = Rejects js_error | Resolves response

text \<open>
  What the platform supplies to one invocation: whether \<open>new URL(s)\<close>
  returns (rather than throws), \<open>JSON.stringify\<close>, the answer of
  \<open>fetch\<close> to a request, the clock read by
  \<open>new Date().toISOString()\<close> and by \<open>Date.now()\<close>, and the
  engine's message for reading a property of \<open>null\<close> or \<open>undefined\<close>.
\<close>

record env =
  url_parses :: "jsstring \<Rightarrow> bool"
  json_stringify :: "jsval \<Rightarrow> jsstring"
  fetch :: "request \<Rightarrow> fetch_result"
  toISOString_now :: jsstring
  date_now :: real
  nullish_read_message :: "jsstring \<Rightarrow> jsstring"

text \<open>
  Reading one of the property names the code uses (\<open>status\<close>, \<open>is_up\<close>,
  \<open>response_time\<close>, \<open>responseTime\<close>, \<open>status_code\<close>,
  \<open>statusCode\<close>, \<open>message\<close>; no built-in prototype defines any of them)
  from a decoded JSON value: \<open>null\<close> and \<open>undefined\<close> throw a TypeError,
  an object yields its own property or \<open>undefined\<close>, every other value
  yields \<open>undefined\<close>.
\<close>

fun get :: "env \<Rightarrow> jsval \<Rightarrow> jsstring \<Rightarrow> js_error + jsval" where
  "get env JNull k = Inl (TypeError (nullish_read_message env k))"
| "get env JUndefined k = Inl (TypeError (nullish_read_message env k))"
| "get env (JObj kvs) k = Inr (case map_of kvs k of None \<Rightarrow> JUndefined | Some v \<Rightarrow> v)"
| "get env (JBool b) k = Inr JUndefined"
| "get env (JNum n) k = Inr JUndefined"
| "get env (JStr s) k = Inr JUndefined"
| "get env (JArr xs) k = Inr JUndefined"

text \<open>\<open>a || b\<close>, where \<open>b\<close> is evaluated only when \<open>a\<close> is falsy.\<close>

definition or_else :: "js_error + jsval \<Rightarrow> js_error + jsval \<Rightarrow> js_error + jsval" where
  "or_else a b = (case a of Inl e \<Rightarrow> Inl e | Inr v \<Rightarrow> if truthy v then Inr v else b)"

section \<open>The component\<close>

text \<open>
  The five \<open>useState\<close> cells of \<open>WebsiteStatusChecker\<close>, and two logs of
  what the component did to the outside: the requests handed to \<open>fetch\<close>
  and the errors written with \<open>console.error\<close>.
\<close>

record state =
  url :: jsstring
  status :: jsval
  loading :: bool
  error :: jsstring
  history :: "jsval list"
  requests :: "request list"
  console :: "js_error list"

definition initial :: state where
  "initial = \<lparr>url = [], status = JNull, loading = False, error = [], history = [],
              requests = [], console = []\<rparr>"

subsection \<open>validateUrl (the same in both source files)\<close>

definition validateUrl :: "env \<Rightarrow> jsstring \<Rightarrow> jsstring option" where
  "validateUrl env urlString =
     (let urlString' =
            (if \<not> startsWith urlString (lit ''http://'') \<and> \<not> startsWith urlString (lit ''https://'')
             then lit ''https://'' @ urlString
             else urlString)
      in if url_parses env urlString' then Some urlString' else None)"

subsection \<open>The try / catch / finally statement of checkWebsite\<close>

text \<open>The object literal \<open>result\<close>; a property read that throws aborts it.\<close>

definition result_of :: "env \<Rightarrow> jsstring \<Rightarrow> jsval \<Rightarrow> js_error + (jsstring \<times> jsval) list" where
  "result_of env validatedUrl data =
     (case or_else (get env data (lit ''status''))
             (case get env data (lit ''is_up'') of
                Inl e \<Rightarrow> Inl e
              | Inr is_up_v \<Rightarrow> Inr (JStr (if truthy is_up_v then lit ''UP'' else lit ''DOWN''))) of
        Inl e \<Rightarrow> Inl e
      | Inr status_v \<Rightarrow>
     (case or_else (get env data (lit ''response_time''))
             (or_else (get env data (lit ''responseTime'')) (Inr (JNum (Fin 0)))) of
        Inl e \<Rightarrow> Inl e
      | Inr responseTime_v \<Rightarrow>
     (case or_else (get env data (lit ''status_code'')) (get env data (lit ''statusCode'')) of
        Inl e \<Rightarrow> Inl e
      | Inr statusCode_v \<Rightarrow>
     (case or_else (get env data (lit ''message'')) (Inr (JStr [])) of
        Inl e \<Rightarrow> Inl e
      | Inr message_v \<Rightarrow>
          Inr [(lit ''url'', JStr validatedUrl),
               (lit ''status'', status_v),
               (lit ''responseTime'', responseTime_v),
               (lit ''timestamp'', JStr (toISOString_now env)),
               (lit ''statusCode'', statusCode_v),
               (lit ''message'', message_v)]))))"

text \<open>The object literal \<open>{...result, id: Date.now()}\<close> stored in the history.\<close>

definition history_item :: "env \<Rightarrow> (jsstring \<times> jsval) list \<Rightarrow> jsval" where
  "history_item env result = JObj (set_prop result (lit ''id'') (JNum (Fin (date_now env))))"

text \<open>
  The try block: the thrown error, if any, and the state it leaves. The
  request is logged when \<open>fetch\<close> is called. \<open>payload\<close> is the
  object literal \<open>{ url: validatedUrl }\<close>.
\<close>

definition payload :: "jsstring \<Rightarrow> jsval" where
  "payload validatedUrl = JObj [(lit ''url'', JStr validatedUrl)]"

text \<open>The arguments of the call of \<open>fetch\<close>.\<close>

definition fetch_request :: "jsstring \<Rightarrow> env \<Rightarrow> jsstring \<Rightarrow> request" where
  "fetch_request backendUrl env validatedUrl =
     \<lparr>endpoint = backendUrl,
      http_method = lit ''POST'',
      headers = [(lit ''Content-Type'', lit ''application/json'')],
      body = json_stringify env (payload validatedUrl)\<rparr>"

definition try_block :: "jsstring \<Rightarrow> env \<Rightarrow> jsstring \<Rightarrow> state \<Rightarrow> js_error option \<times> state" where
  "try_block backendUrl env validatedUrl s =
     (let req = fetch_request backendUrl env validatedUrl;
          s1 = s\<lparr>requests := requests s @ [req]\<rparr>
      in case fetch env req of
           Rejects err \<Rightarrow> (Some err, s1)
         | Resolves response \<Rightarrow>
             if \<not> ok response
             then (Some (Error (lit ''HTTP error! status: '' @ show_nat (http_status response))), s1)
             else (case json response of
                     Inl err \<Rightarrow> (Some err, s1)
                   | Inr data \<Rightarrow>
                       (case result_of env validatedUrl data of
                          Inl err \<Rightarrow> (Some err, s1)
                        | Inr result \<Rightarrow>
                            (None,
                             s1\<lparr>status := JObj result,
                                history := history_item env result # take 4 (history s1)\<rparr>))))"

definition catch_block :: "js_error \<Rightarrow> state \<Rightarrow> state" where
  "catch_block err s =
     s\<lparr>error := lit ''Failed to check website: '' @ message err @ lit ''. Please try again.'',
       console := console s @ [err]\<rparr>"

definition finally_block :: "state \<Rightarrow> state" where
  "finally_block s = s\<lparr>loading := False\<rparr>"

definition try_catch_finally :: "jsstring \<Rightarrow> env \<Rightarrow> jsstring \<Rightarrow> state \<Rightarrow> state" where
  "try_catch_finally backendUrl env validatedUrl s =
     (case try_block backendUrl env validatedUrl s of
        (None, s') \<Rightarrow> finally_block s'
      | (Some err, s') \<Rightarrow> finally_block (catch_block err s'))"

subsection \<open>checkWebsite of src/App.jsx\<close>

text \<open>\<open>url\<close> is the text in the input field; the function takes no argument.\<close>

definition backendUrl :: jsstring where
  "backendUrl = lit ''https://nqs65ghim4dte2aghjwivmjkd40tlmmd.lambda-url.us-east-1.on.aws/''"

definition checkWebsite :: "env \<Rightarrow> state \<Rightarrow> state" where
  "checkWebsite env s =
     (if trim (url s) = [] then s\<lparr>error := lit ''Please enter a website URL''\<rparr>
      else case validateUrl env (trim (url s)) of
             None \<Rightarrow> s\<lparr>error := lit ''Please enter a valid URL (e.g., google.com or https://google.com)''\<rparr>
           | Some validatedUrl \<Rightarrow>
               if validatedUrl = []
               then s\<lparr>error := lit ''Please enter a valid URL (e.g., google.com or https://google.com)''\<rparr>
               else try_catch_finally backendUrl env validatedUrl
                      (s\<lparr>loading := True, error := [], status := JNull\<rparr>))"

subsection \<open>checkWebsite of the second source file, with the quick links and their override\<close>

definition backendUrl_quick :: jsstring where
  "backendUrl_quick = lit ''https://hsd3th6mthl6l33lyu5atx6r4q0qhyqt.lambda-url.us-east-1.on.aws/''"

text \<open>
  \<open>urlOverride\<close> is \<open>null\<close> (the default, \<open>None\<close>) or the address of a
  quick link. \<open>urlOverride || url\<close> and \<open>if (urlOverride)\<close> treat the empty
  string like \<open>null\<close>.
\<close>

definition targetUrl :: "jsstring option \<Rightarrow> state \<Rightarrow> jsstring" where
  "targetUrl urlOverride s =
     (case urlOverride of
        None \<Rightarrow> url s
      | Some u \<Rightarrow> if u \<noteq> [] then u else url s)"

definition checkWebsite_quick :: "env \<Rightarrow> jsstring option \<Rightarrow> state \<Rightarrow> state" where
  "checkWebsite_quick env urlOverride s =
     (if trim (targetUrl urlOverride s) = [] then s\<lparr>error := lit ''Please enter a website URL''\<rparr>
      else case validateUrl env (trim (targetUrl urlOverride s)) of
             None \<Rightarrow> s\<lparr>error := lit ''Please enter a valid URL''\<rparr>
           | Some validatedUrl \<Rightarrow>
               if validatedUrl = [] then s\<lparr>error := lit ''Please enter a valid URL''\<rparr>
               else
                 (let s1 = (case urlOverride of
                              None \<Rightarrow> s
                            | Some u \<Rightarrow> if u \<noteq> [] then s\<lparr>url := u\<rparr> else s)
                  in try_catch_finally backendUrl_quick env validatedUrl
                       (s1\<lparr>loading := True, error := [], status := JNull\<rparr>)))"

section \<open>Sessions: the user types an address and starts a check, repeatedly\<close>



text \<open>
  What the history is to hold for a check: the fields of the record the check
  leaves on display in \<open>status\<close>, followed by the field \<open>id\<close> with the
  time \<open>Date.now()\<close> of the check. The records of a whole session are
  listed oldest first.
\<close>

definition displayed_with_id :: "env \<Rightarrow> state \<Rightarrow> jsval" where
  "displayed_with_id env s =
     (case status s of
        JObj result \<Rightarrow> JObj (result @ [(lit ''id'', JNum (Fin (date_now env)))])
      | v \<Rightarrow> v)"

fun records :: "(env \<times> jsstring) list \<Rightarrow> state \<Rightarrow> jsval list" where
  "records [] s = []"
| "records ((env, text) # rest) s =
     displayed_with_id env (checkWebsite env (s\<lparr>url := text\<rparr>))
     # records rest (checkWebsite env (s\<lparr>url := text\<rparr>))"



fun records_quick :: "(env \<times> jsstring \<times> jsstring option) list \<Rightarrow> state \<Rightarrow> jsval list" where
  "records_quick [] s = []"
| "records_quick ((env, text, urlOverride) # rest) s =
     displayed_with_id env (checkWebsite_quick env urlOverride (s\<lparr>url := text\<rparr>))
     # records_quick rest (checkWebsite_quick env urlOverride (s\<lparr>url := text\<rparr>))"

section \<open>Notions used in the statements\<close>

text \<open>
  The exchange succeeds: \<open>fetch\<close> resolves, the response is ok and its body
  parses as the JSON value \<open>data\<close>.
\<close>

definition exchange_succeeds :: "env \<Rightarrow> request \<Rightarrow> jsval \<Rightarrow> bool" where
  "exchange_succeeds env req data =
     (case fetch env req of
        Rejects e \<Rightarrow> False
      | Resolves r \<Rightarrow> ok r \<and> json r = Inr data)"

text \<open>
  The exchange fails with \<open>err\<close>: \<open>fetch\<close> rejects with it, or the
  response is not ok and \<open>err\<close> is the error the code then throws.
\<close>

definition exchange_fails :: "env \<Rightarrow> request \<Rightarrow> js_error \<Rightarrow> bool" where
  "exchange_fails env req err =
     (case fetch env req of
        Rejects e \<Rightarrow> err = e
      | Resolves r \<Rightarrow>
          \<not> ok r \<and> err = Error (lit ''HTTP error! status: '' @ show_nat (http_status r)))"

text \<open>A field of the record on display, as the view reads \<open>status.responseTime\<close>.\<close>

definition displayed_field :: "state \<Rightarrow> jsstring \<Rightarrow> jsval option" where
  "displayed_field s k = (case status s of JObj result \<Rightarrow> map_of result k | _ \<Rightarrow> None)"

section \<open>Concrete environments\<close>

text \<open>A serializer for the payload shape \<open>{ url: <string> }\<close> with no character to escape.\<close>

definition stringify_plain :: "jsval \<Rightarrow> jsstring" where
  "stringify_plain v =
     (case v of
        JObj [(k, JStr u)] \<Rightarrow> [123, 34] @ k @ [34, 58, 34] @ u @ [34, 125]
      | _ \<Rightarrow> lit ''null'')"

definition env_with :: "fetch_result \<Rightarrow> env" where
  "env_with answer =
     \<lparr>url_parses = (\<lambda>s. 32 \<notin> set s),
      json_stringify = stringify_plain,
      fetch = (\<lambda>r. answer),
      toISOString_now = lit ''2025-01-01T00:00:00.000Z'',
      date_now = 1735689600000,
      nullish_read_message = (\<lambda>k. lit ''Cannot read properties of null (reading '' @ [39] @ k @ [39] @ lit '')'')\<rparr>"

text \<open>The service answers 200 with \<open>{"is_up": true, "response_time": 123, "status_code": 200}\<close>.\<close>

definition env_up :: env where
  "env_up = env_with (Resolves (Response True 200 (Inr (JObj
     [(lit ''is_up'', JBool True),
      (lit ''response_time'', JNum (Fin 123)),
      (lit ''status_code'', JNum (Fin 200))]))))"

text \<open>The network is unreachable: \<open>fetch\<close> rejects.\<close>

definition env_offline :: env where
  "env_offline = env_with (Rejects (TypeError (lit ''Failed to fetch'')))"

text \<open>The service answers 200 with the JSON body \<open>null\<close>.\<close>

definition env_null :: env where
  "env_null = env_with (Resolves (Response True 200 (Inr JNull)))"

text \<open>The service answers 200 with the JSON body \<open>{}\<close>.\<close>

definition env_empty_object :: env where
  "env_empty_object = env_with (Resolves (Response True 200 (Inr (JObj []))))"

text \<open>The service answers 502 with a body that is not JSON.\<close>

definition env_bad_gateway :: env where
  "env_bad_gateway = env_with (Resolves (Response False 502 (Inl (SyntaxError (lit ''Unexpected token'')))))"

definition typed :: "string \<Rightarrow> state" where
  "typed text = initial\<lparr>url := lit text\<rparr>"

text \<open>A state in which an earlier result is on display and the user has typed text with a space in it.\<close>

definition shown_before :: state where
  "shown_before = (typed '' not a url '')\<lparr>status := JObj [(lit ''status'', JStr (lit ''UP''))]\<rparr>"


text \<open>The service of \<open>env_up\<close>, asked when \<open>Date.now()\<close> is \<open>t\<close>.\<close>

definition env_up_at :: "real \<Rightarrow> env" where
  "env_up_at t = env_up\<lparr>date_now := t\<rparr>"




section \<open>Facts about the building blocks\<close>

subsection \<open>Literals\<close>

lemma lit_Nil_iff [simp]: "(lit s = []) = (s = [])"
  by (simp add: lit_def)

lemma lit_messages_nonempty [simp]:
  "lit ''Please enter a website URL'' \<noteq> []"
  "lit ''Please enter a valid URL (e.g., google.com or https://google.com)'' \<noteq> []"
  "lit ''Please enter a valid URL'' \<noteq> []"
  "lit ''Failed to check website: '' @ m \<noteq> []"
  by (simp_all add: lit_def)


subsection \<open>validateUrl\<close>

lemma startsWith_append: "startsWith (p @ s) p"
  by (simp add: startsWith_def)

lemma validateUrl_eq:
  "validateUrl env s =
     (if startsWith s (lit ''http://'') \<or> startsWith s (lit ''https://'')
      then (if url_parses env s then Some s else None)
      else (if url_parses env (lit ''https://'' @ s) then Some (lit ''https://'' @ s) else None))"
  by (simp add: validateUrl_def Let_def)

lemma validateUrl_has_scheme:
  "validateUrl env s = Some u \<Longrightarrow> startsWith u (lit ''http://'') \<or> startsWith u (lit ''https://'')"
  by (auto simp: validateUrl_eq startsWith_append split: if_splits)

lemma validateUrl_parses: "validateUrl env s = Some u \<Longrightarrow> url_parses env u"
  by (auto simp: validateUrl_eq split: if_splits)

lemma validateUrl_nonempty: "validateUrl env s = Some u \<Longrightarrow> u \<noteq> []"
  by (auto simp: validateUrl_eq startsWith_def lit_def split: if_splits)

subsection \<open>The try / catch / finally statement\<close>

lemma tcf_rejects:
  "fetch env (fetch_request b env v) = Rejects err \<Longrightarrow>
   try_catch_finally b env v s =
     s\<lparr>requests := requests s @ [fetch_request b env v],
       error := lit ''Failed to check website: '' @ message err @ lit ''. Please try again.'',
       console := console s @ [err], loading := False\<rparr>"
  by (simp add: try_catch_finally_def try_block_def catch_block_def finally_block_def Let_def)

lemma tcf_not_ok:
  "fetch env (fetch_request b env v) = Resolves r \<Longrightarrow> \<not> ok r \<Longrightarrow>
   try_catch_finally b env v s =
     s\<lparr>requests := requests s @ [fetch_request b env v],
       error := lit ''Failed to check website: '' @ (lit ''HTTP error! status: '' @ show_nat (http_status r)) @ lit ''. Please try again.'',
       console := console s @ [Error (lit ''HTTP error! status: '' @ show_nat (http_status r))], loading := False\<rparr>"
  by (simp add: try_catch_finally_def try_block_def catch_block_def finally_block_def Let_def)

lemma tcf_bad_json:
  "fetch env (fetch_request b env v) = Resolves r \<Longrightarrow> ok r \<Longrightarrow> json r = Inl err \<Longrightarrow>
   try_catch_finally b env v s =
     s\<lparr>requests := requests s @ [fetch_request b env v],
       error := lit ''Failed to check website: '' @ message err @ lit ''. Please try again.'',
       console := console s @ [err], loading := False\<rparr>"
  by (simp add: try_catch_finally_def try_block_def catch_block_def finally_block_def Let_def)

lemma tcf_result_throws:
  "fetch env (fetch_request b env v) = Resolves r \<Longrightarrow> ok r \<Longrightarrow> json r = Inr data \<Longrightarrow>
   result_of env v data = Inl err \<Longrightarrow>
   try_catch_finally b env v s =
     s\<lparr>requests := requests s @ [fetch_request b env v],
       error := lit ''Failed to check website: '' @ message err @ lit ''. Please try again.'',
       console := console s @ [err], loading := False\<rparr>"
  by (simp add: try_catch_finally_def try_block_def catch_block_def finally_block_def Let_def)

lemma tcf_result:
  "fetch env (fetch_request b env v) = Resolves r \<Longrightarrow> ok r \<Longrightarrow> json r = Inr data \<Longrightarrow>
   result_of env v data = Inr result \<Longrightarrow>
   try_catch_finally b env v s =
     s\<lparr>requests := requests s @ [fetch_request b env v],
       status := JObj result,
       history := history_item env result # take 4 (history s), loading := False\<rparr>"
  by (simp add: try_catch_finally_def try_block_def catch_block_def finally_block_def Let_def)

text \<open>Every run of the statement either reports one error or stores one result.\<close>

lemma tcf_cases:
  obtains (thrown) err where
    "try_catch_finally b env v s =
       s\<lparr>requests := requests s @ [fetch_request b env v],
         error := lit ''Failed to check website: '' @ message err @ lit ''. Please try again.'',
         console := console s @ [err], loading := False\<rparr>"
  | (stored) result where
    "try_catch_finally b env v s =
       s\<lparr>requests := requests s @ [fetch_request b env v],
         status := JObj result,
         history := history_item env result # take 4 (history s), loading := False\<rparr>"
proof (cases "fetch env (fetch_request b env v)")
  case (Rejects err)
  then show ?thesis using thrown tcf_rejects by blast
next
  case (Resolves r)
  show ?thesis
  proof (cases "ok r")
    case False
    then show ?thesis using thrown [of "Error (lit ''HTTP error! status: '' @ show_nat (http_status r))"] tcf_not_ok [OF Resolves] by simp
  next
    case True
    show ?thesis
    proof (cases "json r")
      case (Inl err)
      then show ?thesis using thrown tcf_bad_json [OF Resolves True] by blast
    next
      case (Inr data)
      show ?thesis
      proof (cases "result_of env v data")
        case (Inl err)
        then show ?thesis using thrown tcf_result_throws [OF Resolves True Inr] by blast
      next
        case (Inr result)
        then show ?thesis using stored tcf_result [OF Resolves True \<open>json r = Inr data\<close>] by blast
      qed
    qed
  qed
qed

lemma tcf_requests:
  "requests (try_catch_finally b env v s) = requests s @ [fetch_request b env v]"
  by (rule tcf_cases [of b env v s]) simp_all

subsection \<open>The three ways through checkWebsite\<close>

lemma checkWebsite_empty:
  "trim (url s) = [] \<Longrightarrow> checkWebsite env s = s\<lparr>error := lit ''Please enter a website URL''\<rparr>"
  by (simp add: checkWebsite_def)

lemma checkWebsite_invalid:
  "trim (url s) \<noteq> [] \<Longrightarrow> validateUrl env (trim (url s)) = None \<Longrightarrow>
   checkWebsite env s = s\<lparr>error := lit ''Please enter a valid URL (e.g., google.com or https://google.com)''\<rparr>"
  by (simp add: checkWebsite_def)

lemma checkWebsite_valid:
  "trim (url s) \<noteq> [] \<Longrightarrow> validateUrl env (trim (url s)) = Some v \<Longrightarrow>
   checkWebsite env s =
     try_catch_finally backendUrl env v (s\<lparr>loading := True, error := [], status := JNull\<rparr>)"
  using validateUrl_nonempty [of env "trim (url s)" v] by (simp add: checkWebsite_def)

lemma checkWebsite_quick_empty:
  "trim (targetUrl urlOverride s) = [] \<Longrightarrow>
   checkWebsite_quick env urlOverride s = s\<lparr>error := lit ''Please enter a website URL''\<rparr>"
  by (simp add: checkWebsite_quick_def)

lemma checkWebsite_quick_invalid:
  "trim (targetUrl urlOverride s) \<noteq> [] \<Longrightarrow> validateUrl env (trim (targetUrl urlOverride s)) = None \<Longrightarrow>
   checkWebsite_quick env urlOverride s = s\<lparr>error := lit ''Please enter a valid URL''\<rparr>"
  by (simp add: checkWebsite_quick_def)

lemma checkWebsite_quick_valid:
  "trim (targetUrl urlOverride s) \<noteq> [] \<Longrightarrow> validateUrl env (trim (targetUrl urlOverride s)) = Some v \<Longrightarrow>
   checkWebsite_quick env urlOverride s =
     try_catch_finally backendUrl_quick env v
       (s\<lparr>url := (case urlOverride of None \<Rightarrow> url s | Some u \<Rightarrow> if u \<noteq> [] then u else url s),
          loading := True, error := [], status := JNull\<rparr>)"
  using validateUrl_nonempty [of env "trim (targetUrl urlOverride s)" v]
  by (simp add: checkWebsite_quick_def Let_def split: option.splits)

lemma no_request_when_rejected:
  assumes "requests (checkWebsite env s) \<noteq> requests s"
  shows "trim (url s) \<noteq> [] \<and> (\<exists>v. validateUrl env (trim (url s)) = Some v \<and> url_parses env v)"
proof (cases "trim (url s) = []")
  case True
  with assms show ?thesis by (simp add: checkWebsite_empty)
next
  case False
  show ?thesis
  proof (cases "validateUrl env (trim (url s))")
    case None
    with False assms show ?thesis by (simp add: checkWebsite_invalid)
  next
    case (Some v)
    with False validateUrl_parses [OF Some] show ?thesis by simp
  qed
qed

lemma no_request_when_rejected_quick:
  assumes "requests (checkWebsite_quick env urlOverride s) \<noteq> requests s"
  shows "trim (targetUrl urlOverride s) \<noteq> []
      \<and> (\<exists>v. validateUrl env (trim (targetUrl urlOverride s)) = Some v \<and> url_parses env v)"
proof (cases "trim (targetUrl urlOverride s) = []")
  case True
  with assms show ?thesis by (simp add: checkWebsite_quick_empty)
next
  case False
  show ?thesis
  proof (cases "validateUrl env (trim (targetUrl urlOverride s))")
    case None
    with False assms show ?thesis by (simp add: checkWebsite_quick_invalid)
  next
    case (Some v)
    with False validateUrl_parses [OF Some] show ?thesis by simp
  qed
qed

lemma rejected_state:
  assumes "trim (url s) = [] \<or> validateUrl env (trim (url s)) = None"
  obtains m where "m \<noteq> []" "checkWebsite env s = s\<lparr>error := m\<rparr>"
proof (cases "trim (url s) = []")
  case True
  then show ?thesis using that [of "lit ''Please enter a website URL''"]
    by (simp add: checkWebsite_empty)
next
  case False
  with assms have "validateUrl env (trim (url s)) = None" by simp
  with False show ?thesis
    using that [of "lit ''Please enter a valid URL (e.g., google.com or https://google.com)''"]
    by (simp add: checkWebsite_invalid)
qed

lemma rejected_state_quick:
  assumes "trim (targetUrl urlOverride s) = [] \<or> validateUrl env (trim (targetUrl urlOverride s)) = None"
  obtains m where "m \<noteq> []" "checkWebsite_quick env urlOverride s = s\<lparr>error := m\<rparr>"
proof (cases "trim (targetUrl urlOverride s) = []")
  case True
  then show ?thesis using that [of "lit ''Please enter a website URL''"]
    by (simp add: checkWebsite_quick_empty)
next
  case False
  with assms have "validateUrl env (trim (targetUrl urlOverride s)) = None" by simp
  with False show ?thesis
    using that [of "lit ''Please enter a valid URL''"]
    by (simp add: checkWebsite_quick_invalid)
qed

subsection \<open>The concrete environments\<close>

lemma env_with_simps [simp]:
  "url_parses (env_with a) s = (32 \<notin> set s)"
  "json_stringify (env_with a) = stringify_plain"
  "fetch (env_with a) r = a"
  "toISOString_now (env_with a) = lit ''2025-01-01T00:00:00.000Z''"
  "date_now (env_with a) = 1735689600000"
  by (simp_all add: env_with_def)

lemma trim_google [simp]: "trim (lit ''google.com'') = lit ''google.com''"
  by (simp add: trim_def lit_def isWhiteSpace_def)

lemma trim_spaces [simp]: "trim (lit ''   '') = []"
  by (simp add: trim_def lit_def isWhiteSpace_def)

lemma trim_not_a_url [simp]: "trim (lit '' not a url '') = lit ''not a url''"
  by (simp add: trim_def lit_def isWhiteSpace_def)

lemma validate_google [simp]: "validateUrl (env_with a) (lit ''google.com'') = Some (lit ''https://google.com'')"
  by (simp add: validateUrl_eq startsWith_def lit_def)

lemma validate_not_a_url [simp]: "validateUrl (env_with a) (lit ''not a url'') = None"
  by (simp add: validateUrl_eq startsWith_def lit_def)

lemma typed_simps [simp]:
  "url (typed t) = lit t" "status (typed t) = JNull" "loading (typed t) = False"
  "error (typed t) = []" "history (typed t) = []" "requests (typed t) = []" "console (typed t) = []"
  by (simp_all add: typed_def initial_def)

lemma result_of_up:
  "result_of (env_with a) v (JObj [(lit ''is_up'', JBool True),
      (lit ''response_time'', JNum (Fin 123)),
      (lit ''status_code'', JNum (Fin 200))]) =
   Inr [(lit ''url'', JStr v),
        (lit ''status'', JStr (lit ''UP'')),
        (lit ''responseTime'', JNum (Fin 123)),
        (lit ''timestamp'', JStr (lit ''2025-01-01T00:00:00.000Z'')),
        (lit ''statusCode'', JNum (Fin 200)),
        (lit ''message'', JStr [])]"
  by (simp add: result_of_def or_else_def lit_def)

lemma result_of_empty_object:
  "result_of (env_with a) v (JObj []) =
   Inr [(lit ''url'', JStr v),
        (lit ''status'', JStr (lit ''DOWN'')),
        (lit ''responseTime'', JNum (Fin 0)),
        (lit ''timestamp'', JStr (lit ''2025-01-01T00:00:00.000Z'')),
        (lit ''statusCode'', JUndefined),
        (lit ''message'', JStr [])]"
  by (simp add: result_of_def or_else_def)

lemma result_of_null:
  "result_of env v JNull = Inl (TypeError (nullish_read_message env (lit ''status'')))"
  by (simp add: result_of_def or_else_def)

lemma targetUrl_None [simp]: "targetUrl None s = url s"
  by (simp add: targetUrl_def)

lemma targetUrl_Some [simp]: "u \<noteq> [] \<Longrightarrow> targetUrl (Some u) s = u"
  by (simp add: targetUrl_def)

lemma env_up_simps [simp]:
  "url_parses env_up s = (32 \<notin> set s)"
  "json_stringify env_up = stringify_plain"
  "validateUrl env_up (lit ''google.com'') = Some (lit ''https://google.com'')"
  "validateUrl env_up (lit ''not a url'') = None"
  by (simp_all add: env_up_def)

lemma sent_google: "requests (checkWebsite env_up (typed ''google.com'')) \<noteq> []"
proof -
  have "checkWebsite env_up (typed ''google.com'') =
     try_catch_finally backendUrl env_up (lit ''https://google.com'')
       ((typed ''google.com'')\<lparr>loading := True, error := [], status := JNull\<rparr>)"
    by (rule checkWebsite_valid) simp_all
  then show ?thesis by (simp add: tcf_requests)
qed

lemma sent_google_quick:
  "requests (checkWebsite_quick env_up (Some (lit ''google.com'')) (typed [])) \<noteq> []"
proof -
  have "checkWebsite_quick env_up (Some (lit ''google.com'')) (typed []) =
     try_catch_finally backendUrl_quick env_up (lit ''https://google.com'')
       ((typed [])\<lparr>url := (case Some (lit ''google.com'') of None \<Rightarrow> url (typed []) | Some u \<Rightarrow> if u \<noteq> [] then u else url (typed [])),
          loading := True, error := [], status := JNull\<rparr>)"
    by (rule checkWebsite_quick_valid) simp_all
  then show ?thesis by (simp add: tcf_requests)
qed

lemma shown_before_simps [simp]:
  "url shown_before = lit '' not a url ''"
  "status shown_before = JObj [(lit ''status'', JStr (lit ''UP''))]"
  "loading shown_before = False"
  "history shown_before = []"
  by (simp_all add: shown_before_def)

lemma stringify_plain_payload:
  "stringify_plain (JObj [(k, JStr u)]) = [123, 34] @ k @ [34, 58, 34] @ u @ [34, 125]"
  by (simp add: stringify_plain_def)

subsection \<open>The result object\<close>

text \<open>A non-null JSON body always yields a result.\<close>

lemma get_total:
  "data \<noteq> JNull \<Longrightarrow> data \<noteq> JUndefined \<Longrightarrow> \<exists>x. get env data k = Inr x"
  by (cases data) simp_all

lemma get_Inr_not_nullish:
  "get env data k = Inr x \<Longrightarrow> data \<noteq> JNull \<and> data \<noteq> JUndefined"
  by (cases data) simp_all

lemma result_of_fields:
  assumes "get env data (lit ''status'') = Inr st"
    and "get env data (lit ''is_up'') = Inr up"
    and "get env data (lit ''response_time'') = Inr rt"
    and "get env data (lit ''responseTime'') = Inr rT"
    and "get env data (lit ''status_code'') = Inr sc"
    and "get env data (lit ''statusCode'') = Inr sC"
    and "get env data (lit ''message'') = Inr msg"
  shows "result_of env v data =
     Inr [(lit ''url'', JStr v),
          (lit ''status'', if truthy st then st else JStr (if truthy up then lit ''UP'' else lit ''DOWN'')),
          (lit ''responseTime'', if truthy rt then rt else if truthy rT then rT else JNum (Fin 0)),
          (lit ''timestamp'', JStr (toISOString_now env)),
          (lit ''statusCode'', if truthy sc then sc else sC),
          (lit ''message'', if truthy msg then msg else JStr [])]"
  using assms by (simp add: result_of_def or_else_def)

lemma result_of_not_null:
  assumes "data \<noteq> JNull" "data \<noteq> JUndefined"
  obtains st rt sc msg where
    "result_of env v data =
       Inr [(lit ''url'', JStr v), (lit ''status'', st), (lit ''responseTime'', rt),
            (lit ''timestamp'', JStr (toISOString_now env)), (lit ''statusCode'', sc),
            (lit ''message'', msg)]"
proof -
  obtain a b c d e f g where
    "get env data (lit ''status'') = Inr a" "get env data (lit ''is_up'') = Inr b"
    "get env data (lit ''response_time'') = Inr c" "get env data (lit ''responseTime'') = Inr d"
    "get env data (lit ''status_code'') = Inr e" "get env data (lit ''statusCode'') = Inr f"
    "get env data (lit ''message'') = Inr g"
    using get_total [OF assms, of env] by metis
  from result_of_fields [OF this, of v] that show ?thesis by blast
qed

lemma lit_keys_distinct [simp]:
  "lit ''url'' \<noteq> lit ''status''" "lit ''url'' \<noteq> lit ''responseTime''"
  "lit ''url'' \<noteq> lit ''message''"
  "lit ''status'' \<noteq> lit ''url''" "lit ''status'' \<noteq> lit ''responseTime''"
  "lit ''status'' \<noteq> lit ''message''"
  "lit ''responseTime'' \<noteq> lit ''url''" "lit ''responseTime'' \<noteq> lit ''status''"
  "lit ''responseTime'' \<noteq> lit ''message''"
  "lit ''timestamp'' \<noteq> lit ''message''" "lit ''statusCode'' \<noteq> lit ''message''"
  "lit ''timestamp'' \<noteq> lit ''responseTime''"
  "lit ''message'' \<noteq> lit ''url''" "lit ''message'' \<noteq> lit ''status''"
  "lit ''message'' \<noteq> lit ''responseTime''" "lit ''message'' \<noteq> lit ''timestamp''"
  "lit ''message'' \<noteq> lit ''statusCode''"
  "lit ''responseTime'' \<noteq> lit ''timestamp''"
  by (simp_all add: lit_def)

subsection \<open>Failed and successful exchanges\<close>

lemma tcf_fails:
  assumes "exchange_fails env (fetch_request b env v) err"
  shows "try_catch_finally b env v s =
     s\<lparr>requests := requests s @ [fetch_request b env v],
       error := lit ''Failed to check website: '' @ message err @ lit ''. Please try again.'',
       console := console s @ [err], loading := False\<rparr>"
proof (cases "fetch env (fetch_request b env v)")
  case (Rejects e)
  with assms have "err = e" by (simp add: exchange_fails_def)
  with Rejects show ?thesis by (simp add: tcf_rejects)
next
  case (Resolves r)
  with assms have "\<not> ok r" "err = Error (lit ''HTTP error! status: '' @ show_nat (http_status r))"
    by (simp_all add: exchange_fails_def)
  with tcf_not_ok [OF Resolves, where s = s] show ?thesis by simp
qed

lemma tcf_succeeds:
  assumes "exchange_succeeds env (fetch_request b env v) data"
    and "result_of env v data = Inr result"
  shows "try_catch_finally b env v s =
     s\<lparr>requests := requests s @ [fetch_request b env v],
       status := JObj result,
       history := history_item env result # take 4 (history s), loading := False\<rparr>"
proof (cases "fetch env (fetch_request b env v)")
  case (Rejects e)
  with assms show ?thesis by (simp add: exchange_succeeds_def)
next
  case (Resolves r)
  with assms have "ok r" "json r = Inr data" by (simp_all add: exchange_succeeds_def)
  from tcf_result [OF Resolves this assms(2)] show ?thesis .
qed

lemma tcf_null:
  assumes "exchange_succeeds env (fetch_request b env v) JNull"
  shows "try_catch_finally b env v s =
     s\<lparr>requests := requests s @ [fetch_request b env v],
       error := lit ''Failed to check website: '' @ nullish_read_message env (lit ''status'') @ lit ''. Please try again.'',
       console := console s @ [TypeError (nullish_read_message env (lit ''status''))], loading := False\<rparr>"
proof (cases "fetch env (fetch_request b env v)")
  case (Rejects e)
  with assms show ?thesis by (simp add: exchange_succeeds_def)
next
  case (Resolves r)
  with assms have "ok r" "json r = Inr JNull" by (simp_all add: exchange_succeeds_def)
  from tcf_result_throws [OF Resolves this result_of_null, where s = s] show ?thesis by simp
qed

text \<open>What a failed exchange leaves, on top of a state prepared by the three setters.\<close>

lemma failed_exchange_state:
  assumes "exchange_fails env (fetch_request b env v) err"
  shows "status (try_catch_finally b env v (s\<lparr>loading := True, error := [], status := JNull\<rparr>)) = JNull"
    and "history (try_catch_finally b env v (s\<lparr>loading := True, error := [], status := JNull\<rparr>)) = history s"
    and "error (try_catch_finally b env v (s\<lparr>loading := True, error := [], status := JNull\<rparr>)) =
           lit ''Failed to check website: '' @ message err @ lit ''. Please try again.''"
    and "loading (try_catch_finally b env v (s\<lparr>loading := True, error := [], status := JNull\<rparr>)) = False"
    and "requests (try_catch_finally b env v (s\<lparr>loading := True, error := [], status := JNull\<rparr>)) =
           requests s @ [fetch_request b env v]"
    and "console (try_catch_finally b env v (s\<lparr>loading := True, error := [], status := JNull\<rparr>)) =
           console s @ [err]"
  by (simp_all add: tcf_fails [OF assms])

lemma tcf_status_of_result:
  assumes "exchange_succeeds env (fetch_request b env v) data"
    and "result_of env v data = Inr result"
  shows "status (try_catch_finally b env v s) = JObj result"
  by (simp add: tcf_succeeds [OF assms])

lemma displayed_after_success:
  assumes "exchange_succeeds env (fetch_request b env v) data"
    and "data \<noteq> JNull" "data \<noteq> JUndefined"
  shows "\<exists>st rt sc msg. status (try_catch_finally b env v s) =
       JObj [(lit ''url'', JStr v), (lit ''status'', st), (lit ''responseTime'', rt),
             (lit ''timestamp'', JStr (toISOString_now env)), (lit ''statusCode'', sc),
             (lit ''message'', msg)]"
proof -
  from assms(2,3) obtain st rt sc msg where
    r: "result_of env v data =
       Inr [(lit ''url'', JStr v), (lit ''status'', st), (lit ''responseTime'', rt),
            (lit ''timestamp'', JStr (toISOString_now env)), (lit ''statusCode'', sc),
            (lit ''message'', msg)]"
    by (rule result_of_not_null)
  from tcf_status_of_result [OF assms(1) r] show ?thesis by blast
qed

text \<open>The defaults, on the shared statement.\<close>

lemma defaults_after_success:
  assumes e: "exchange_succeeds env (fetch_request b env v) data"
  shows "get env data (lit ''status'') = Inr x \<Longrightarrow> \<not> truthy x \<Longrightarrow>
         get env data (lit ''is_up'') = Inr up \<Longrightarrow>
         displayed_field (try_catch_finally b env v s) (lit ''status'') =
           Some (JStr (if truthy up then lit ''UP'' else lit ''DOWN''))"
    and "get env data (lit ''response_time'') = Inr y \<Longrightarrow> \<not> truthy y \<Longrightarrow>
         get env data (lit ''responseTime'') = Inr z \<Longrightarrow> \<not> truthy z \<Longrightarrow>
         displayed_field (try_catch_finally b env v s) (lit ''responseTime'') = Some (JNum (Fin 0))"
    and "get env data (lit ''message'') = Inr m \<Longrightarrow> \<not> truthy m \<Longrightarrow>
         displayed_field (try_catch_finally b env v s) (lit ''message'') = Some (JStr [])"
proof -
  have *: "displayed_field (try_catch_finally b env v s) k =
      map_of [(lit ''url'', JStr v),
          (lit ''status'', if truthy st then st else JStr (if truthy u then lit ''UP'' else lit ''DOWN'')),
          (lit ''responseTime'', if truthy rt then rt else if truthy rT then rT else JNum (Fin 0)),
          (lit ''timestamp'', JStr (toISOString_now env)),
          (lit ''statusCode'', if truthy sc then sc else sC),
          (lit ''message'', if truthy msg then msg else JStr [])] k"
    if "get env data (lit ''status'') = Inr st"
      "get env data (lit ''is_up'') = Inr u"
      "get env data (lit ''response_time'') = Inr rt"
      "get env data (lit ''responseTime'') = Inr rT"
      "get env data (lit ''status_code'') = Inr sc"
      "get env data (lit ''statusCode'') = Inr sC"
      "get env data (lit ''message'') = Inr msg" for st u rt rT sc sC msg k
    using tcf_status_of_result [OF e result_of_fields [OF that]]
    by (simp add: displayed_field_def)
  have all: "\<exists>q. get env data k = Inr q" if "get env data k' = Inr q'" for k k' q'
    using get_Inr_not_nullish [OF that] get_total by blast
  {
    assume g: "get env data (lit ''status'') = Inr x" "\<not> truthy x"
      "get env data (lit ''is_up'') = Inr up"
    obtain rt rT sc sC msg where
      "get env data (lit ''response_time'') = Inr rt"
      "get env data (lit ''responseTime'') = Inr rT"
      "get env data (lit ''status_code'') = Inr sc"
      "get env data (lit ''statusCode'') = Inr sC"
      "get env data (lit ''message'') = Inr msg"
      using all [OF g(1)] by metis
    from * [OF g(1) g(3) this] g(2)
    show "displayed_field (try_catch_finally b env v s) (lit ''status'') =
           Some (JStr (if truthy up then lit ''UP'' else lit ''DOWN''))"
      by simp
  }
  {
    assume g: "get env data (lit ''response_time'') = Inr y" "\<not> truthy y"
         "get env data (lit ''responseTime'') = Inr z" "\<not> truthy z"
    obtain st u sc sC msg where
      h: "get env data (lit ''status'') = Inr st"
      "get env data (lit ''is_up'') = Inr u"
      and h2: "get env data (lit ''status_code'') = Inr sc"
      "get env data (lit ''statusCode'') = Inr sC"
      "get env data (lit ''message'') = Inr msg"
      using all [OF g(1)] by metis
    from * [OF h g(1) g(3) h2] g(2) g(4)
    show "displayed_field (try_catch_finally b env v s) (lit ''responseTime'') = Some (JNum (Fin 0))"
      by simp
  }
  {
    assume g: "get env data (lit ''message'') = Inr m" "\<not> truthy m"
    obtain st u rt rT sc sC where
      h: "get env data (lit ''status'') = Inr st"
      "get env data (lit ''is_up'') = Inr u"
      "get env data (lit ''response_time'') = Inr rt"
      "get env data (lit ''responseTime'') = Inr rT"
      "get env data (lit ''status_code'') = Inr sc"
      "get env data (lit ''statusCode'') = Inr sC"
      using all [OF g(1)] by metis
    from * [OF h g(1)] g(2)
    show "displayed_field (try_catch_finally b env v s) (lit ''message'') = Some (JStr [])"
      by simp
  }
qed

lemma defaults_bundle:
  assumes e: "exchange_succeeds env (fetch_request b env v) data"
    and c: "s' = try_catch_finally b env v s0"
  shows "(\<forall>x up. get env data (lit ''status'') = Inr x \<and> \<not> truthy x
            \<and> get env data (lit ''is_up'') = Inr up \<longrightarrow>
          displayed_field s' (lit ''status'') =
            Some (JStr (if truthy up then lit ''UP'' else lit ''DOWN'')))
      \<and> (\<forall>y z. get env data (lit ''response_time'') = Inr y \<and> \<not> truthy y
            \<and> get env data (lit ''responseTime'') = Inr z \<and> \<not> truthy z \<longrightarrow>
          displayed_field s' (lit ''responseTime'') = Some (JNum (Fin 0)))
      \<and> (\<forall>m. get env data (lit ''message'') = Inr m \<and> \<not> truthy m \<longrightarrow>
          displayed_field s' (lit ''message'') = Some (JStr []))"
  unfolding c using defaults_after_success [OF e] by blast

text \<open>One run of the shared statement: one request, and one report or one result.\<close>

lemma tcf_one_exchange:
  "(\<exists>e. requests (try_catch_finally b env v s) = requests s @ [fetch_request b env v]
        \<and> console (try_catch_finally b env v s) = console s @ [e]
        \<and> error (try_catch_finally b env v s) =
             lit ''Failed to check website: '' @ message e @ lit ''. Please try again.'')
   \<or> (requests (try_catch_finally b env v s) = requests s @ [fetch_request b env v]
        \<and> console (try_catch_finally b env v s) = console s
        \<and> error (try_catch_finally b env v s) = error s)"
proof (rule tcf_cases [of b env v s])
  fix err
  assume "try_catch_finally b env v s =
       s\<lparr>requests := requests s @ [fetch_request b env v],
         error := lit ''Failed to check website: '' @ message err @ lit ''. Please try again.'',
         console := console s @ [err], loading := False\<rparr>"
  then show ?thesis by simp
next
  fix result
  assume "try_catch_finally b env v s =
       s\<lparr>requests := requests s @ [fetch_request b env v],
         status := JObj result,
         history := history_item env result # take 4 (history s), loading := False\<rparr>"
  then show ?thesis by simp
qed

lemma checkWebsite_one_exchange:
  "(requests (checkWebsite env s) = requests s \<and> console (checkWebsite env s) = console s)
   \<or> (\<exists>req e. requests (checkWebsite env s) = requests s @ [req]
        \<and> console (checkWebsite env s) = console s @ [e]
        \<and> error (checkWebsite env s) =
             lit ''Failed to check website: '' @ message e @ lit ''. Please try again.'')
   \<or> (\<exists>req. requests (checkWebsite env s) = requests s @ [req]
        \<and> console (checkWebsite env s) = console s
        \<and> error (checkWebsite env s) = [])"
proof (cases "trim (url s) = [] \<or> validateUrl env (trim (url s)) = None")
  case True
  then obtain m where "checkWebsite env s = s\<lparr>error := m\<rparr>" by (rule rejected_state)
  then show ?thesis by simp
next
  case False
  then obtain v where "trim (url s) \<noteq> []" "validateUrl env (trim (url s)) = Some v" by auto
  then have c: "checkWebsite env s =
      try_catch_finally backendUrl env v (s\<lparr>loading := True, error := [], status := JNull\<rparr>)"
    by (rule checkWebsite_valid)
  from tcf_one_exchange [of backendUrl env v "s\<lparr>loading := True, error := [], status := JNull\<rparr>"]
  show ?thesis unfolding c by auto
qed

lemma checkWebsite_quick_one_exchange:
  "(requests (checkWebsite_quick env urlOverride s) = requests s
      \<and> console (checkWebsite_quick env urlOverride s) = console s)
   \<or> (\<exists>req e. requests (checkWebsite_quick env urlOverride s) = requests s @ [req]
        \<and> console (checkWebsite_quick env urlOverride s) = console s @ [e]
        \<and> error (checkWebsite_quick env urlOverride s) =
             lit ''Failed to check website: '' @ message e @ lit ''. Please try again.'')
   \<or> (\<exists>req. requests (checkWebsite_quick env urlOverride s) = requests s @ [req]
        \<and> console (checkWebsite_quick env urlOverride s) = console s
        \<and> error (checkWebsite_quick env urlOverride s) = [])"
proof (cases "trim (targetUrl urlOverride s) = [] \<or> validateUrl env (trim (targetUrl urlOverride s)) = None")
  case True
  then obtain m where "checkWebsite_quick env urlOverride s = s\<lparr>error := m\<rparr>"
    by (rule rejected_state_quick)
  then show ?thesis by simp
next
  case False
  then obtain v where "trim (targetUrl urlOverride s) \<noteq> []"
    "validateUrl env (trim (targetUrl urlOverride s)) = Some v" by auto
  then have c: "checkWebsite_quick env urlOverride s =
     try_catch_finally backendUrl_quick env v
       (s\<lparr>url := (case urlOverride of None \<Rightarrow> url s | Some u \<Rightarrow> if u \<noteq> [] then u else url s),
          loading := True, error := [], status := JNull\<rparr>)"
    by (rule checkWebsite_quick_valid)
  from tcf_one_exchange [of backendUrl_quick env v
      "s\<lparr>url := (case urlOverride of None \<Rightarrow> url s | Some u \<Rightarrow> if u \<noteq> [] then u else url s),
          loading := True, error := [], status := JNull\<rparr>"]
  show ?thesis unfolding c by auto
qed

subsection \<open>Checks in the concrete environments\<close>

lemma check_google:
  "checkWebsite (env_with a) (typed ''google.com'') =
     try_catch_finally backendUrl (env_with a) (lit ''https://google.com'')
       ((typed ''google.com'')\<lparr>loading := True, error := [], status := JNull\<rparr>)"
  by (rule checkWebsite_valid) simp_all

lemma check_google_quick:
  "checkWebsite_quick (env_with a) None (typed ''google.com'') =
     try_catch_finally backendUrl_quick (env_with a) (lit ''https://google.com'')
       ((typed ''google.com'')\<lparr>loading := True, error := [], status := JNull\<rparr>)"
proof -
  have "checkWebsite_quick (env_with a) None (typed ''google.com'') =
     try_catch_finally backendUrl_quick (env_with a) (lit ''https://google.com'')
       ((typed ''google.com'')\<lparr>url := (case None of None \<Rightarrow> url (typed ''google.com'')
            | Some u \<Rightarrow> if u \<noteq> [] then u else url (typed ''google.com'')),
          loading := True, error := [], status := JNull\<rparr>)"
    by (rule checkWebsite_quick_valid) simp_all
  then show ?thesis by (simp add: typed_def)
qed

lemma show_nat_502: "show_nat 502 = lit ''502''"
  by (simp add: show_nat.simps lit_def)

lemma exchange_fails_env_with:
  "exchange_fails (env_with (Rejects e)) req e"
  "\<not> okr \<Longrightarrow> exchange_fails (env_with (Resolves (Response okr code b))) req
     (Error (lit ''HTTP error! status: '' @ show_nat code))"
  by (simp_all add: exchange_fails_def)

lemma exchange_succeeds_env_with:
  "exchange_succeeds (env_with (Resolves (Response True code (Inr data)))) req data"
  by (simp add: exchange_succeeds_def)

subsection \<open>The history after successful checks\<close>










lemma length_records [simp]: "length (records cs s) = length cs"
  by (induction cs s rule: records.induct) simp_all

lemma length_records_quick [simp]: "length (records_quick cs s) = length cs"
  by (induction cs s rule: records_quick.induct) simp_all



subsection \<open>Checks of google.com at a given time\<close>

lemma env_up_at_simps [simp]:
  "url_parses (env_up_at t) s = (32 \<notin> set s)"
  "fetch (env_up_at t) r = Resolves (Response True 200 (Inr (JObj
     [(lit ''is_up'', JBool True),
      (lit ''response_time'', JNum (Fin 123)),
      (lit ''status_code'', JNum (Fin 200))])))"
  "toISOString_now (env_up_at t) = lit ''2025-01-01T00:00:00.000Z''"
  "date_now (env_up_at t) = t"
  "validateUrl (env_up_at t) (lit ''google.com'') = Some (lit ''https://google.com'')"
  by (simp_all add: env_up_at_def env_up_def validateUrl_eq startsWith_def lit_def)

lemma env_up_at_now: "env_up_at 1735689600000 = env_up"
  by (simp add: env_up_at_def env_up_def env_with_def)





section \<open>The input normalizer\<close>

text \<open>
  C1. A string that starts with neither \<open>http://\<close> nor \<open>https://\<close> is
  given the default scheme \<open>https://\<close> before it is validated, a string that
  starts with one of them is validated as it is, and whenever the string so
  obtained parses as a URL, \<open>validateUrl\<close> returns exactly that string
  (and \<open>null\<close> otherwise).
\<close>

theorem validateUrl_default_scheme:
  "(\<not> startsWith s (lit ''http://'') \<and> \<not> startsWith s (lit ''https://'') \<longrightarrow>
      validateUrl env s =
        (if url_parses env (lit ''https://'' @ s) then Some (lit ''https://'' @ s) else None))
   \<and> (startsWith s (lit ''http://'') \<or> startsWith s (lit ''https://'') \<longrightarrow>
      validateUrl env s = (if url_parses env s then Some s else None))"
  by (simp add: validateUrl_eq)

theorem validateUrl_default_scheme_witness:
  "validateUrl env_up (lit ''google.com'') = Some (lit ''https://google.com'')
   \<and> validateUrl env_up (lit ''http://example.org'') = Some (lit ''http://example.org'')"
  using validateUrl_default_scheme [of "lit ''google.com''" env_up]
        validateUrl_default_scheme [of "lit ''http://example.org''" env_up]
  by (simp add: env_up_def startsWith_def lit_def)

text \<open>
  C8. Normalization is idempotent: when \<open>validateUrl\<close> succeeds on \<open>s\<close>
  with the URL \<open>u\<close>, it succeeds on \<open>u\<close> and returns \<open>u\<close> itself.
\<close>

theorem validateUrl_idempotent:
  "validateUrl env s = Some u \<Longrightarrow> validateUrl env u = Some u"
  using validateUrl_has_scheme [of env s u] validateUrl_parses [of env s u]
  by (simp add: validateUrl_eq)

theorem validateUrl_idempotent_witness:
  "validateUrl env_up (lit ''google.com'') = Some (lit ''https://google.com'')
   \<and> validateUrl env_up (lit ''https://google.com'') = Some (lit ''https://google.com'')"
proof -
  have h: "validateUrl env_up (lit ''google.com'') = Some (lit ''https://google.com'')"
    by (simp add: validateUrl_eq env_up_def startsWith_def lit_def)
  from validateUrl_idempotent [OF h] h show ?thesis by simp
qed


section \<open>Rejected input\<close>

text \<open>
  C6. When the trimmed input is empty, or is not a well-formed URL even after
  the scheme is added, \<open>checkWebsite\<close> sets an error message and hands no
  request to \<open>fetch\<close>; a request is sent only for an input that
  \<open>validateUrl\<close> turned into a URL that parses. This holds for both versions
  of the component.
\<close>

theorem invalid_input_sends_no_request:
  "(trim (url s) = [] \<longrightarrow>
      error (checkWebsite env s) = lit ''Please enter a website URL''
      \<and> requests (checkWebsite env s) = requests s)
   \<and> (trim (url s) \<noteq> [] \<and> validateUrl env (trim (url s)) = None \<longrightarrow>
      error (checkWebsite env s) = lit ''Please enter a valid URL (e.g., google.com or https://google.com)''
      \<and> requests (checkWebsite env s) = requests s)
   \<and> (requests (checkWebsite env s) \<noteq> requests s \<longrightarrow>
      trim (url s) \<noteq> [] \<and> (\<exists>v. validateUrl env (trim (url s)) = Some v \<and> url_parses env v))
   \<and> (trim (targetUrl urlOverride s) = [] \<longrightarrow>
      error (checkWebsite_quick env urlOverride s) = lit ''Please enter a website URL''
      \<and> requests (checkWebsite_quick env urlOverride s) = requests s)
   \<and> (trim (targetUrl urlOverride s) \<noteq> [] \<and> validateUrl env (trim (targetUrl urlOverride s)) = None \<longrightarrow>
      error (checkWebsite_quick env urlOverride s) = lit ''Please enter a valid URL''
      \<and> requests (checkWebsite_quick env urlOverride s) = requests s)
   \<and> (requests (checkWebsite_quick env urlOverride s) \<noteq> requests s \<longrightarrow>
      trim (targetUrl urlOverride s) \<noteq> []
      \<and> (\<exists>v. validateUrl env (trim (targetUrl urlOverride s)) = Some v \<and> url_parses env v))"
proof (intro conjI impI)
  assume "requests (checkWebsite env s) \<noteq> requests s"
  from no_request_when_rejected [OF this]
  show "trim (url s) \<noteq> []" "\<exists>v. validateUrl env (trim (url s)) = Some v \<and> url_parses env v"
    by blast+
next
  assume "requests (checkWebsite_quick env urlOverride s) \<noteq> requests s"
  from no_request_when_rejected_quick [OF this]
  show "trim (targetUrl urlOverride s) \<noteq> []"
    "\<exists>v. validateUrl env (trim (targetUrl urlOverride s)) = Some v \<and> url_parses env v"
    by blast+
qed (simp_all add: checkWebsite_empty checkWebsite_invalid checkWebsite_quick_empty checkWebsite_quick_invalid)


theorem invalid_input_sends_no_request_witness:
  "error (checkWebsite env_up (typed ''   '')) = lit ''Please enter a website URL''
   \<and> requests (checkWebsite env_up (typed ''   '')) = []
   \<and> error (checkWebsite env_up (typed '' not a url '')) =
       lit ''Please enter a valid URL (e.g., google.com or https://google.com)''
   \<and> requests (checkWebsite env_up (typed '' not a url '')) = []
   \<and> requests (checkWebsite env_up (typed ''google.com'')) \<noteq> []
   \<and> url_parses env_up (lit ''https://google.com'')
   \<and> error (checkWebsite_quick env_up None (typed ''   '')) = lit ''Please enter a website URL''
   \<and> requests (checkWebsite_quick env_up None (typed ''   '')) = []
   \<and> error (checkWebsite_quick env_up (Some (lit '' not a url '')) (typed [])) =
       lit ''Please enter a valid URL''
   \<and> requests (checkWebsite_quick env_up (Some (lit '' not a url '')) (typed [])) = []
   \<and> requests (checkWebsite_quick env_up (Some (lit ''google.com'')) (typed [])) \<noteq> []"
proof -
  note blank = invalid_input_sends_no_request [of "typed ''   ''" env_up None]
  note junk = invalid_input_sends_no_request [of "typed '' not a url ''" env_up None]
  note junk_quick = invalid_input_sends_no_request [of "typed []" env_up "Some (lit '' not a url '')"]
  note good = invalid_input_sends_no_request [of "typed ''google.com''" env_up "Some (lit ''google.com'')"]
  have b: "trim (url (typed ''   '')) = []" "trim (targetUrl None (typed ''   '')) = []"
    by simp_all
  have j: "trim (url (typed '' not a url '')) \<noteq> []"
          "validateUrl env_up (trim (url (typed '' not a url ''))) = None"
          "trim (targetUrl (Some (lit '' not a url '')) (typed [])) \<noteq> []"
          "validateUrl env_up (trim (targetUrl (Some (lit '' not a url '')) (typed []))) = None"
    by simp_all
  have g: "requests (checkWebsite env_up (typed ''google.com'')) \<noteq> requests (typed ''google.com'')"
    using sent_google by simp
  have 1: "error (checkWebsite env_up (typed ''   '')) = lit ''Please enter a website URL''
      \<and> requests (checkWebsite env_up (typed ''   '')) = requests (typed ''   '')"
    using blank b by blast
  have 2: "error (checkWebsite_quick env_up None (typed ''   '')) = lit ''Please enter a website URL''
      \<and> requests (checkWebsite_quick env_up None (typed ''   '')) = requests (typed ''   '')"
    using blank b by blast
  have 3: "error (checkWebsite env_up (typed '' not a url '')) =
       lit ''Please enter a valid URL (e.g., google.com or https://google.com)''
      \<and> requests (checkWebsite env_up (typed '' not a url '')) = requests (typed '' not a url '')"
    using junk j by blast
  have 4: "error (checkWebsite_quick env_up (Some (lit '' not a url '')) (typed [])) =
       lit ''Please enter a valid URL''
      \<and> requests (checkWebsite_quick env_up (Some (lit '' not a url '')) (typed [])) = requests (typed [])"
    using junk_quick j by blast
  have 5: "\<exists>v. validateUrl env_up (trim (url (typed ''google.com''))) = Some v \<and> url_parses env_up v"
    using good g by blast
  then have 6: "url_parses env_up (lit ''https://google.com'')" by simp
  from 1 2 3 4 6 sent_google sent_google_quick show ?thesis by simp
qed

text \<open>
  C9. When \<open>checkWebsite\<close> rejects the input, only the error message
  changes: the url field, the current status record, the loading flag and the
  history are as before, so a record displayed earlier stays next to the new,
  non-empty error message. This holds for both versions of the component.
\<close>

theorem rejected_input_changes_only_error:
  "(trim (url s) = [] \<or> validateUrl env (trim (url s)) = None \<longrightarrow>
      url (checkWebsite env s) = url s
      \<and> status (checkWebsite env s) = status s
      \<and> loading (checkWebsite env s) = loading s
      \<and> history (checkWebsite env s) = history s
      \<and> error (checkWebsite env s) \<noteq> []
      \<and> checkWebsite env s = s\<lparr>error := error (checkWebsite env s)\<rparr>)
   \<and> (trim (targetUrl urlOverride s) = [] \<or> validateUrl env (trim (targetUrl urlOverride s)) = None \<longrightarrow>
      url (checkWebsite_quick env urlOverride s) = url s
      \<and> status (checkWebsite_quick env urlOverride s) = status s
      \<and> loading (checkWebsite_quick env urlOverride s) = loading s
      \<and> history (checkWebsite_quick env urlOverride s) = history s
      \<and> error (checkWebsite_quick env urlOverride s) \<noteq> []
      \<and> checkWebsite_quick env urlOverride s = s\<lparr>error := error (checkWebsite_quick env urlOverride s)\<rparr>)"
proof (rule conjI; rule impI)
  assume "trim (url s) = [] \<or> validateUrl env (trim (url s)) = None"
  then obtain m where "m \<noteq> []" "checkWebsite env s = s\<lparr>error := m\<rparr>"
    by (rule rejected_state)
  then show "url (checkWebsite env s) = url s
      \<and> status (checkWebsite env s) = status s
      \<and> loading (checkWebsite env s) = loading s
      \<and> history (checkWebsite env s) = history s
      \<and> error (checkWebsite env s) \<noteq> []
      \<and> checkWebsite env s = s\<lparr>error := error (checkWebsite env s)\<rparr>"
    by simp
next
  assume "trim (targetUrl urlOverride s) = [] \<or> validateUrl env (trim (targetUrl urlOverride s)) = None"
  then obtain m where "m \<noteq> []" "checkWebsite_quick env urlOverride s = s\<lparr>error := m\<rparr>"
    by (rule rejected_state_quick)
  then show "url (checkWebsite_quick env urlOverride s) = url s
      \<and> status (checkWebsite_quick env urlOverride s) = status s
      \<and> loading (checkWebsite_quick env urlOverride s) = loading s
      \<and> history (checkWebsite_quick env urlOverride s) = history s
      \<and> error (checkWebsite_quick env urlOverride s) \<noteq> []
      \<and> checkWebsite_quick env urlOverride s = s\<lparr>error := error (checkWebsite_quick env urlOverride s)\<rparr>"
    by simp
qed

theorem rejected_input_changes_only_error_witness:
  "url (checkWebsite env_up shown_before) = lit '' not a url ''
   \<and> status (checkWebsite env_up shown_before) = JObj [(lit ''status'', JStr (lit ''UP''))]
   \<and> loading (checkWebsite env_up shown_before) = False
   \<and> history (checkWebsite env_up shown_before) = []
   \<and> error (checkWebsite env_up shown_before) \<noteq> []
   \<and> url (checkWebsite_quick env_up None shown_before) = lit '' not a url ''
   \<and> status (checkWebsite_quick env_up None shown_before) = JObj [(lit ''status'', JStr (lit ''UP''))]
   \<and> loading (checkWebsite_quick env_up None shown_before) = False
   \<and> history (checkWebsite_quick env_up None shown_before) = []
   \<and> error (checkWebsite_quick env_up None shown_before) \<noteq> []"
proof -
  note t = rejected_input_changes_only_error [of shown_before env_up None]
  have h: "validateUrl env_up (trim (url shown_before)) = None"
          "validateUrl env_up (trim (targetUrl None shown_before)) = None"
    by simp_all
  have 1: "url (checkWebsite env_up shown_before) = url shown_before
      \<and> status (checkWebsite env_up shown_before) = status shown_before
      \<and> loading (checkWebsite env_up shown_before) = loading shown_before
      \<and> history (checkWebsite env_up shown_before) = history shown_before
      \<and> error (checkWebsite env_up shown_before) \<noteq> []"
    using t h by blast
  have 2: "url (checkWebsite_quick env_up None shown_before) = url shown_before
      \<and> status (checkWebsite_quick env_up None shown_before) = status shown_before
      \<and> loading (checkWebsite_quick env_up None shown_before) = loading shown_before
      \<and> history (checkWebsite_quick env_up None shown_before) = history shown_before
      \<and> error (checkWebsite_quick env_up None shown_before) \<noteq> []"
    using t h by blast
  from 1 2 show ?thesis by simp
qed

section \<open>The request\<close>

text \<open>
  C4. A check whose input passes validation hands exactly one request to
  \<open>fetch\<close>: a POST to the fixed backend endpoint of its version, with the
  header \<open>Content-Type: application/json\<close> and, as its body, the JSON
  serialization of the object \<open>{ url: <normalized URL> }\<close>.
\<close>

theorem valid_input_sends_one_POST:
  "(trim (url s) \<noteq> [] \<and> validateUrl env (trim (url s)) = Some v \<longrightarrow>
      requests (checkWebsite env s) = requests s @
        [\<lparr>endpoint = backendUrl, http_method = lit ''POST'',
          headers = [(lit ''Content-Type'', lit ''application/json'')],
          body = json_stringify env (JObj [(lit ''url'', JStr v)])\<rparr>])
   \<and> (trim (targetUrl urlOverride s) \<noteq> [] \<and> validateUrl env (trim (targetUrl urlOverride s)) = Some v' \<longrightarrow>
      requests (checkWebsite_quick env urlOverride s) = requests s @
        [\<lparr>endpoint = backendUrl_quick, http_method = lit ''POST'',
          headers = [(lit ''Content-Type'', lit ''application/json'')],
          body = json_stringify env (JObj [(lit ''url'', JStr v')])\<rparr>])"
proof (rule conjI; rule impI; elim conjE)
  assume "trim (url s) \<noteq> []" "validateUrl env (trim (url s)) = Some v"
  then show "requests (checkWebsite env s) = requests s @
        [\<lparr>endpoint = backendUrl, http_method = lit ''POST'',
          headers = [(lit ''Content-Type'', lit ''application/json'')],
          body = json_stringify env (JObj [(lit ''url'', JStr v)])\<rparr>]"
    by (simp add: checkWebsite_valid tcf_requests fetch_request_def payload_def)
next
  assume "trim (targetUrl urlOverride s) \<noteq> []" "validateUrl env (trim (targetUrl urlOverride s)) = Some v'"
  then show "requests (checkWebsite_quick env urlOverride s) = requests s @
        [\<lparr>endpoint = backendUrl_quick, http_method = lit ''POST'',
          headers = [(lit ''Content-Type'', lit ''application/json'')],
          body = json_stringify env (JObj [(lit ''url'', JStr v')])\<rparr>]"
    by (simp add: checkWebsite_quick_valid tcf_requests fetch_request_def payload_def)
qed

theorem valid_input_sends_one_POST_witness:
  "requests (checkWebsite env_up (typed ''google.com'')) =
     [\<lparr>endpoint = backendUrl, http_method = lit ''POST'',
       headers = [(lit ''Content-Type'', lit ''application/json'')],
       body = [123, 34] @ lit ''url'' @ [34, 58, 34] @ lit ''https://google.com'' @ [34, 125]\<rparr>]
   \<and> requests (checkWebsite_quick env_up (Some (lit ''google.com'')) (typed ''google.com'')) =
     [\<lparr>endpoint = backendUrl_quick, http_method = lit ''POST'',
       headers = [(lit ''Content-Type'', lit ''application/json'')],
       body = [123, 34] @ lit ''url'' @ [34, 58, 34] @ lit ''https://google.com'' @ [34, 125]\<rparr>]"
proof -
  note t = valid_input_sends_one_POST [of "typed ''google.com''" env_up "lit ''https://google.com''"
          "Some (lit ''google.com'')" "lit ''https://google.com''"]
  have h: "trim (url (typed ''google.com'')) \<noteq> []"
      "validateUrl env_up (trim (url (typed ''google.com''))) = Some (lit ''https://google.com'')"
      "trim (targetUrl (Some (lit ''google.com'')) (typed ''google.com'')) \<noteq> []"
      "validateUrl env_up (trim (targetUrl (Some (lit ''google.com'')) (typed ''google.com''))) = Some (lit ''https://google.com'')"
    by simp_all
  have 1: "requests (checkWebsite env_up (typed ''google.com'')) = requests (typed ''google.com'') @
        [\<lparr>endpoint = backendUrl, http_method = lit ''POST'',
          headers = [(lit ''Content-Type'', lit ''application/json'')],
          body = json_stringify env_up (JObj [(lit ''url'', JStr (lit ''https://google.com''))])\<rparr>]"
    using t h by blast
  have 2: "requests (checkWebsite_quick env_up (Some (lit ''google.com'')) (typed ''google.com'')) = requests (typed ''google.com'') @
        [\<lparr>endpoint = backendUrl_quick, http_method = lit ''POST'',
          headers = [(lit ''Content-Type'', lit ''application/json'')],
          body = json_stringify env_up (JObj [(lit ''url'', JStr (lit ''https://google.com''))])\<rparr>]"
    using t h by blast
  from 1 2 show ?thesis by (simp add: stringify_plain_payload)
qed

section \<open>The exchange with the service\<close>

text \<open>
  C7. Every invocation of \<open>checkWebsite\<close> makes at most one exchange with the
  service: either it sends nothing and logs nothing, or it sends exactly one
  request and reports exactly one error (one \<open>console.error\<close>, one error
  message), or it sends exactly one request and ends without an error. When
  the exchange fails (\<open>fetch\<close> rejects or the status is not ok), the one
  request is followed by the one report and nothing is sent again. This holds
  for both versions of the component.
\<close>

theorem at_most_one_exchange_per_check:
  "((requests (checkWebsite env s) = requests s \<and> console (checkWebsite env s) = console s)
     \<or> (\<exists>req e. requests (checkWebsite env s) = requests s @ [req]
          \<and> console (checkWebsite env s) = console s @ [e]
          \<and> error (checkWebsite env s) =
               lit ''Failed to check website: '' @ message e @ lit ''. Please try again.'')
     \<or> (\<exists>req. requests (checkWebsite env s) = requests s @ [req]
          \<and> console (checkWebsite env s) = console s
          \<and> error (checkWebsite env s) = []))
   \<and> ((requests (checkWebsite_quick env urlOverride s) = requests s
        \<and> console (checkWebsite_quick env urlOverride s) = console s)
     \<or> (\<exists>req e. requests (checkWebsite_quick env urlOverride s) = requests s @ [req]
          \<and> console (checkWebsite_quick env urlOverride s) = console s @ [e]
          \<and> error (checkWebsite_quick env urlOverride s) =
               lit ''Failed to check website: '' @ message e @ lit ''. Please try again.'')
     \<or> (\<exists>req. requests (checkWebsite_quick env urlOverride s) = requests s @ [req]
          \<and> console (checkWebsite_quick env urlOverride s) = console s
          \<and> error (checkWebsite_quick env urlOverride s) = []))
   \<and> (trim (url s) \<noteq> [] \<and> validateUrl env (trim (url s)) = Some v
        \<and> exchange_fails env (fetch_request backendUrl env v) err \<longrightarrow>
      requests (checkWebsite env s) = requests s @ [fetch_request backendUrl env v]
      \<and> console (checkWebsite env s) = console s @ [err])
   \<and> (trim (targetUrl urlOverride s) \<noteq> [] \<and> validateUrl env (trim (targetUrl urlOverride s)) = Some v'
        \<and> exchange_fails env (fetch_request backendUrl_quick env v') err' \<longrightarrow>
      requests (checkWebsite_quick env urlOverride s) = requests s @ [fetch_request backendUrl_quick env v']
      \<and> console (checkWebsite_quick env urlOverride s) = console s @ [err'])"
proof (intro conjI impI; (elim conjE)?)
  show "(requests (checkWebsite env s) = requests s \<and> console (checkWebsite env s) = console s)
     \<or> (\<exists>req e. requests (checkWebsite env s) = requests s @ [req]
          \<and> console (checkWebsite env s) = console s @ [e]
          \<and> error (checkWebsite env s) =
               lit ''Failed to check website: '' @ message e @ lit ''. Please try again.'')
     \<or> (\<exists>req. requests (checkWebsite env s) = requests s @ [req]
          \<and> console (checkWebsite env s) = console s
          \<and> error (checkWebsite env s) = [])"
    by (rule checkWebsite_one_exchange)
next
  show "(requests (checkWebsite_quick env urlOverride s) = requests s
        \<and> console (checkWebsite_quick env urlOverride s) = console s)
     \<or> (\<exists>req e. requests (checkWebsite_quick env urlOverride s) = requests s @ [req]
          \<and> console (checkWebsite_quick env urlOverride s) = console s @ [e]
          \<and> error (checkWebsite_quick env urlOverride s) =
               lit ''Failed to check website: '' @ message e @ lit ''. Please try again.'')
     \<or> (\<exists>req. requests (checkWebsite_quick env urlOverride s) = requests s @ [req]
          \<and> console (checkWebsite_quick env urlOverride s) = console s
          \<and> error (checkWebsite_quick env urlOverride s) = [])"
    by (rule checkWebsite_quick_one_exchange)
next
  assume a: "trim (url s) \<noteq> []" "validateUrl env (trim (url s)) = Some v"
    and f: "exchange_fails env (fetch_request backendUrl env v) err"
  from a have c: "checkWebsite env s =
      try_catch_finally backendUrl env v (s\<lparr>loading := True, error := [], status := JNull\<rparr>)"
    by (rule checkWebsite_valid)
  show "requests (checkWebsite env s) = requests s @ [fetch_request backendUrl env v]"
    and "console (checkWebsite env s) = console s @ [err]"
    unfolding c by (simp_all add: tcf_fails [OF f])
next
  assume a: "trim (targetUrl urlOverride s) \<noteq> []" "validateUrl env (trim (targetUrl urlOverride s)) = Some v'"
    and f: "exchange_fails env (fetch_request backendUrl_quick env v') err'"
  from a have c: "checkWebsite_quick env urlOverride s =
     try_catch_finally backendUrl_quick env v'
       (s\<lparr>url := (case urlOverride of None \<Rightarrow> url s | Some u \<Rightarrow> if u \<noteq> [] then u else url s),
          loading := True, error := [], status := JNull\<rparr>)"
    by (rule checkWebsite_quick_valid)
  show "requests (checkWebsite_quick env urlOverride s) = requests s @ [fetch_request backendUrl_quick env v']"
    and "console (checkWebsite_quick env urlOverride s) = console s @ [err']"
    unfolding c by (simp_all add: tcf_fails [OF f])
qed

theorem at_most_one_exchange_per_check_witness:
  "requests (checkWebsite env_offline (typed ''google.com'')) =
     [fetch_request backendUrl env_offline (lit ''https://google.com'')]
   \<and> console (checkWebsite env_offline (typed ''google.com'')) = [TypeError (lit ''Failed to fetch'')]
   \<and> requests (checkWebsite_quick env_offline None (typed ''google.com'')) =
     [fetch_request backendUrl_quick env_offline (lit ''https://google.com'')]
   \<and> console (checkWebsite_quick env_offline None (typed ''google.com'')) = [TypeError (lit ''Failed to fetch'')]"
proof -
  note t = at_most_one_exchange_per_check [of env_offline "typed ''google.com''" None
      "lit ''https://google.com''" "TypeError (lit ''Failed to fetch'')"
      "lit ''https://google.com''" "TypeError (lit ''Failed to fetch'')"]
  have h: "trim (url (typed ''google.com'')) \<noteq> []"
    "validateUrl env_offline (trim (url (typed ''google.com''))) = Some (lit ''https://google.com'')"
    "trim (targetUrl None (typed ''google.com'')) \<noteq> []"
    "validateUrl env_offline (trim (targetUrl None (typed ''google.com''))) = Some (lit ''https://google.com'')"
    by (simp_all add: env_offline_def)
  have f: "exchange_fails env_offline (fetch_request backendUrl env_offline (lit ''https://google.com''))
      (TypeError (lit ''Failed to fetch''))"
    "exchange_fails env_offline (fetch_request backendUrl_quick env_offline (lit ''https://google.com''))
      (TypeError (lit ''Failed to fetch''))"
    unfolding env_offline_def by (rule exchange_fails_env_with)+
  have 1: "requests (checkWebsite env_offline (typed ''google.com'')) =
      requests (typed ''google.com'') @ [fetch_request backendUrl env_offline (lit ''https://google.com'')]
      \<and> console (checkWebsite env_offline (typed ''google.com'')) =
        console (typed ''google.com'') @ [TypeError (lit ''Failed to fetch'')]"
    using t h f by blast
  have 2: "requests (checkWebsite_quick env_offline None (typed ''google.com'')) =
      requests (typed ''google.com'') @ [fetch_request backendUrl_quick env_offline (lit ''https://google.com'')]
      \<and> console (checkWebsite_quick env_offline None (typed ''google.com'')) =
        console (typed ''google.com'') @ [TypeError (lit ''Failed to fetch'')]"
    using t h f by blast
  from 1 2 show ?thesis by simp
qed

text \<open>
  C3, as the code has it. The claim says that a failed exchange is mapped into
  a display record that is appended to the history. The \<open>catch\<close> block
  only sets the error message: with \<open>fetch\<close> rejecting, and with a 502
  response, the check of google.com from the initial state ends with no
  record on display and an empty history.
\<close>

theorem failed_exchange_not_recorded_counterexample:
  "fetch env_offline (fetch_request backendUrl env_offline (lit ''https://google.com'')) =
     Rejects (TypeError (lit ''Failed to fetch''))
   \<and> status (checkWebsite env_offline (typed ''google.com'')) = JNull
   \<and> history (checkWebsite env_offline (typed ''google.com'')) = []
   \<and> fetch env_bad_gateway (fetch_request backendUrl env_bad_gateway (lit ''https://google.com'')) =
     Resolves (Response False 502 (Inl (SyntaxError (lit ''Unexpected token''))))
   \<and> status (checkWebsite env_bad_gateway (typed ''google.com'')) = JNull
   \<and> history (checkWebsite env_bad_gateway (typed ''google.com'')) = []"
proof -
  have 1: "exchange_fails env_offline (fetch_request backendUrl env_offline (lit ''https://google.com''))
      (TypeError (lit ''Failed to fetch''))"
    unfolding env_offline_def by (rule exchange_fails_env_with)
  have 2: "exchange_fails env_bad_gateway (fetch_request backendUrl env_bad_gateway (lit ''https://google.com''))
      (Error (lit ''HTTP error! status: '' @ show_nat 502))"
    unfolding env_bad_gateway_def by (rule exchange_fails_env_with) simp
  have 3: "checkWebsite env_offline (typed ''google.com'') =
     try_catch_finally backendUrl env_offline (lit ''https://google.com'')
       ((typed ''google.com'')\<lparr>loading := True, error := [], status := JNull\<rparr>)"
    unfolding env_offline_def by (rule check_google)
  have 4: "checkWebsite env_bad_gateway (typed ''google.com'') =
     try_catch_finally backendUrl env_bad_gateway (lit ''https://google.com'')
       ((typed ''google.com'')\<lparr>loading := True, error := [], status := JNull\<rparr>)"
    unfolding env_bad_gateway_def by (rule check_google)
  have 5: "fetch env_offline (fetch_request backendUrl env_offline (lit ''https://google.com'')) =
     Rejects (TypeError (lit ''Failed to fetch''))"
    by (simp add: env_offline_def)
  have 6: "fetch env_bad_gateway (fetch_request backendUrl env_bad_gateway (lit ''https://google.com'')) =
     Resolves (Response False 502 (Inl (SyntaxError (lit ''Unexpected token''))))"
    by (simp add: env_bad_gateway_def)
  show ?thesis
    unfolding 3 4 using 5 6 by (simp add: failed_exchange_state [OF 1] failed_exchange_state [OF 2])
qed

text \<open>
  C3, amended. For every check whose input passes validation and whose
  exchange fails (\<open>fetch\<close> rejects, or the service responds with a non-ok
  status), the failure is reported as the error message
  \<open>Failed to check website: <message>. Please try again.\<close>, no record is on
  display (\<open>status\<close> is \<open>null\<close>), the history is unchanged and
  \<open>loading\<close> is false again. This holds for both versions of the component.
\<close>

theorem failed_exchange_reports_error_only:
  "(trim (url s) \<noteq> [] \<and> validateUrl env (trim (url s)) = Some v
      \<and> exchange_fails env (fetch_request backendUrl env v) err \<longrightarrow>
      status (checkWebsite env s) = JNull
      \<and> history (checkWebsite env s) = history s
      \<and> error (checkWebsite env s) =
          lit ''Failed to check website: '' @ message err @ lit ''. Please try again.''
      \<and> loading (checkWebsite env s) = False)
   \<and> (trim (targetUrl urlOverride s) \<noteq> [] \<and> validateUrl env (trim (targetUrl urlOverride s)) = Some v'
      \<and> exchange_fails env (fetch_request backendUrl_quick env v') err' \<longrightarrow>
      status (checkWebsite_quick env urlOverride s) = JNull
      \<and> history (checkWebsite_quick env urlOverride s) = history s
      \<and> error (checkWebsite_quick env urlOverride s) =
          lit ''Failed to check website: '' @ message err' @ lit ''. Please try again.''
      \<and> loading (checkWebsite_quick env urlOverride s) = False)"
proof (rule conjI; rule impI; elim conjE)
  assume a: "trim (url s) \<noteq> []" "validateUrl env (trim (url s)) = Some v"
    and f: "exchange_fails env (fetch_request backendUrl env v) err"
  from a have "checkWebsite env s =
      try_catch_finally backendUrl env v (s\<lparr>loading := True, error := [], status := JNull\<rparr>)"
    by (rule checkWebsite_valid)
  then show "status (checkWebsite env s) = JNull
      \<and> history (checkWebsite env s) = history s
      \<and> error (checkWebsite env s) =
          lit ''Failed to check website: '' @ message err @ lit ''. Please try again.''
      \<and> loading (checkWebsite env s) = False"
    by (simp add: failed_exchange_state [OF f])
next
  assume a: "trim (targetUrl urlOverride s) \<noteq> []" "validateUrl env (trim (targetUrl urlOverride s)) = Some v'"
    and f: "exchange_fails env (fetch_request backendUrl_quick env v') err'"
  from a have "checkWebsite_quick env urlOverride s =
     try_catch_finally backendUrl_quick env v'
       (s\<lparr>url := (case urlOverride of None \<Rightarrow> url s | Some u \<Rightarrow> if u \<noteq> [] then u else url s),
          loading := True, error := [], status := JNull\<rparr>)"
    by (rule checkWebsite_quick_valid)
  then show "status (checkWebsite_quick env urlOverride s) = JNull
      \<and> history (checkWebsite_quick env urlOverride s) = history s
      \<and> error (checkWebsite_quick env urlOverride s) =
          lit ''Failed to check website: '' @ message err' @ lit ''. Please try again.''
      \<and> loading (checkWebsite_quick env urlOverride s) = False"
    by (simp add: tcf_fails [OF f])
qed

theorem failed_exchange_reports_error_only_witness:
  "status (checkWebsite env_offline (typed ''google.com'')) = JNull
   \<and> history (checkWebsite env_offline (typed ''google.com'')) = []
   \<and> error (checkWebsite env_offline (typed ''google.com'')) =
       lit ''Failed to check website: Failed to fetch. Please try again.''
   \<and> loading (checkWebsite env_offline (typed ''google.com'')) = False
   \<and> status (checkWebsite_quick env_offline None (typed ''google.com'')) = JNull
   \<and> history (checkWebsite_quick env_offline None (typed ''google.com'')) = []
   \<and> error (checkWebsite_quick env_offline None (typed ''google.com'')) =
       lit ''Failed to check website: Failed to fetch. Please try again.''
   \<and> loading (checkWebsite_quick env_offline None (typed ''google.com'')) = False"
proof -
  note t = failed_exchange_reports_error_only [of "typed ''google.com''" env_offline
      "lit ''https://google.com''" "TypeError (lit ''Failed to fetch'')" None
      "lit ''https://google.com''" "TypeError (lit ''Failed to fetch'')"]
  have h: "trim (url (typed ''google.com'')) \<noteq> []"
    "validateUrl env_offline (trim (url (typed ''google.com''))) = Some (lit ''https://google.com'')"
    "trim (targetUrl None (typed ''google.com'')) \<noteq> []"
    "validateUrl env_offline (trim (targetUrl None (typed ''google.com''))) = Some (lit ''https://google.com'')"
    by (simp_all add: env_offline_def)
  have f: "exchange_fails env_offline (fetch_request backendUrl env_offline (lit ''https://google.com''))
      (TypeError (lit ''Failed to fetch''))"
    "exchange_fails env_offline (fetch_request backendUrl_quick env_offline (lit ''https://google.com''))
      (TypeError (lit ''Failed to fetch''))"
    unfolding env_offline_def by (rule exchange_fails_env_with)+
  have 1: "status (checkWebsite env_offline (typed ''google.com'')) = JNull
      \<and> history (checkWebsite env_offline (typed ''google.com'')) = history (typed ''google.com'')
      \<and> error (checkWebsite env_offline (typed ''google.com'')) =
          lit ''Failed to check website: '' @ message (TypeError (lit ''Failed to fetch'')) @ lit ''. Please try again.''
      \<and> loading (checkWebsite env_offline (typed ''google.com'')) = False"
    using t h f by blast
  have 2: "status (checkWebsite_quick env_offline None (typed ''google.com'')) = JNull
      \<and> history (checkWebsite_quick env_offline None (typed ''google.com'')) = history (typed ''google.com'')
      \<and> error (checkWebsite_quick env_offline None (typed ''google.com'')) =
          lit ''Failed to check website: '' @ message (TypeError (lit ''Failed to fetch'')) @ lit ''. Please try again.''
      \<and> loading (checkWebsite_quick env_offline None (typed ''google.com'')) = False"
    using t h f by blast
  have m: "lit ''Failed to check website: '' @ message (TypeError (lit ''Failed to fetch'')) @ lit ''. Please try again.''
     = lit ''Failed to check website: Failed to fetch. Please try again.''"
    by (simp add: lit_def)
  from 1 2 show ?thesis unfolding m by simp
qed

section \<open>The display record\<close>

text \<open>
  C5, as the code has it. The claim covers every check whose response is ok
  and whose body parses as JSON. \<open>null\<close> is a JSON value; reading
  \<open>data.status\<close> from it throws a TypeError, which the \<open>catch\<close> block
  reports: the check ends with no record on display and an empty history.
\<close>

theorem null_body_not_mapped_counterexample:
  "fetch env_null (fetch_request backendUrl env_null (lit ''https://google.com'')) =
     Resolves (Response True 200 (Inr JNull))
   \<and> status (checkWebsite env_null (typed ''google.com'')) = JNull
   \<and> history (checkWebsite env_null (typed ''google.com'')) = []
   \<and> console (checkWebsite env_null (typed ''google.com'')) =
       [TypeError (nullish_read_message env_null (lit ''status''))]"
proof -
  have 1: "exchange_succeeds env_null (fetch_request backendUrl env_null (lit ''https://google.com'')) JNull"
    unfolding env_null_def by (rule exchange_succeeds_env_with)
  have 2: "checkWebsite env_null (typed ''google.com'') =
     try_catch_finally backendUrl env_null (lit ''https://google.com'')
       ((typed ''google.com'')\<lparr>loading := True, error := [], status := JNull\<rparr>)"
    unfolding env_null_def by (rule check_google)
  have 3: "fetch env_null (fetch_request backendUrl env_null (lit ''https://google.com'')) =
     Resolves (Response True 200 (Inr JNull))"
    by (simp add: env_null_def)
  show ?thesis unfolding 2 using 3 by (simp add: tcf_null [OF 1])
qed

text \<open>
  C5, amended. For every check whose input passes validation and whose
  exchange succeeds with a JSON body other than \<open>null\<close> (\<open>undefined\<close> is
  not a JSON value), the response is mapped into a display record with exactly
  the fields \<open>url\<close> (the normalized URL that was submitted), \<open>status\<close>,
  \<open>responseTime\<close>, \<open>timestamp\<close>, \<open>statusCode\<close> and \<open>message\<close>,
  in this order. This holds for both versions of the component.
\<close>

theorem json_response_mapped_to_fixed_shape:
  "(trim (url s) \<noteq> [] \<and> validateUrl env (trim (url s)) = Some v
      \<and> exchange_succeeds env (fetch_request backendUrl env v) data
      \<and> data \<noteq> JNull \<and> data \<noteq> JUndefined \<longrightarrow>
      (\<exists>st rt sc msg. status (checkWebsite env s) =
         JObj [(lit ''url'', JStr v), (lit ''status'', st), (lit ''responseTime'', rt),
               (lit ''timestamp'', JStr (toISOString_now env)), (lit ''statusCode'', sc),
               (lit ''message'', msg)]))
   \<and> (trim (targetUrl urlOverride s) \<noteq> [] \<and> validateUrl env (trim (targetUrl urlOverride s)) = Some v'
      \<and> exchange_succeeds env (fetch_request backendUrl_quick env v') data'
      \<and> data' \<noteq> JNull \<and> data' \<noteq> JUndefined \<longrightarrow>
      (\<exists>st rt sc msg. status (checkWebsite_quick env urlOverride s) =
         JObj [(lit ''url'', JStr v'), (lit ''status'', st), (lit ''responseTime'', rt),
               (lit ''timestamp'', JStr (toISOString_now env)), (lit ''statusCode'', sc),
               (lit ''message'', msg)]))"
proof (rule conjI; rule impI; elim conjE)
  assume a: "trim (url s) \<noteq> []" "validateUrl env (trim (url s)) = Some v"
    and e: "exchange_succeeds env (fetch_request backendUrl env v) data"
    and d: "data \<noteq> JNull" "data \<noteq> JUndefined"
  from a have "checkWebsite env s =
      try_catch_finally backendUrl env v (s\<lparr>loading := True, error := [], status := JNull\<rparr>)"
    by (rule checkWebsite_valid)
  with displayed_after_success [OF e d]
  show "\<exists>st rt sc msg. status (checkWebsite env s) =
         JObj [(lit ''url'', JStr v), (lit ''status'', st), (lit ''responseTime'', rt),
               (lit ''timestamp'', JStr (toISOString_now env)), (lit ''statusCode'', sc),
               (lit ''message'', msg)]"
    by simp
next
  assume a: "trim (targetUrl urlOverride s) \<noteq> []" "validateUrl env (trim (targetUrl urlOverride s)) = Some v'"
    and e: "exchange_succeeds env (fetch_request backendUrl_quick env v') data'"
    and d: "data' \<noteq> JNull" "data' \<noteq> JUndefined"
  from a have "checkWebsite_quick env urlOverride s =
     try_catch_finally backendUrl_quick env v'
       (s\<lparr>url := (case urlOverride of None \<Rightarrow> url s | Some u \<Rightarrow> if u \<noteq> [] then u else url s),
          loading := True, error := [], status := JNull\<rparr>)"
    by (rule checkWebsite_quick_valid)
  with displayed_after_success [OF e d]
  show "\<exists>st rt sc msg. status (checkWebsite_quick env urlOverride s) =
         JObj [(lit ''url'', JStr v'), (lit ''status'', st), (lit ''responseTime'', rt),
               (lit ''timestamp'', JStr (toISOString_now env)), (lit ''statusCode'', sc),
               (lit ''message'', msg)]"
    by simp
qed

theorem json_response_mapped_to_fixed_shape_witness:
  "(\<exists>st rt sc msg. status (checkWebsite env_up (typed ''google.com'')) =
         JObj [(lit ''url'', JStr (lit ''https://google.com'')), (lit ''status'', st),
               (lit ''responseTime'', rt),
               (lit ''timestamp'', JStr (lit ''2025-01-01T00:00:00.000Z'')),
               (lit ''statusCode'', sc), (lit ''message'', msg)])
   \<and> (\<exists>st rt sc msg. status (checkWebsite_quick env_up None (typed ''google.com'')) =
         JObj [(lit ''url'', JStr (lit ''https://google.com'')), (lit ''status'', st),
               (lit ''responseTime'', rt),
               (lit ''timestamp'', JStr (lit ''2025-01-01T00:00:00.000Z'')),
               (lit ''statusCode'', sc), (lit ''message'', msg)])"
proof -
  let ?data = "JObj [(lit ''is_up'', JBool True), (lit ''response_time'', JNum (Fin 123)),
      (lit ''status_code'', JNum (Fin 200))]"
  note t = json_response_mapped_to_fixed_shape [of "typed ''google.com''" env_up
      "lit ''https://google.com''" ?data None "lit ''https://google.com''" ?data]
  have h: "trim (url (typed ''google.com'')) \<noteq> []"
    "validateUrl env_up (trim (url (typed ''google.com''))) = Some (lit ''https://google.com'')"
    "trim (targetUrl None (typed ''google.com'')) \<noteq> []"
    "validateUrl env_up (trim (targetUrl None (typed ''google.com''))) = Some (lit ''https://google.com'')"
    "?data \<noteq> JNull" "?data \<noteq> JUndefined"
    by simp_all
  have e: "exchange_succeeds env_up (fetch_request backendUrl env_up (lit ''https://google.com'')) ?data"
    "exchange_succeeds env_up (fetch_request backendUrl_quick env_up (lit ''https://google.com'')) ?data"
    unfolding env_up_def by (rule exchange_succeeds_env_with)+
  have i: "toISOString_now env_up = lit ''2025-01-01T00:00:00.000Z''"
    by (simp add: env_up_def)
  from t h e show ?thesis unfolding i by blast
qed

text \<open>
  C10. After a successful exchange the display record applies the defaults:
  when the response's \<open>status\<close> field is falsy, the record's status is
  \<open>UP\<close> if \<open>is_up\<close> is truthy and \<open>DOWN\<close> otherwise; when
  \<open>response_time\<close> and \<open>responseTime\<close> are both falsy, the record's
  \<open>responseTime\<close> is 0; when \<open>message\<close> is falsy, the record's message
  is the empty string. A field is falsy when reading it yields a falsy value,
  \<open>undefined\<close> for a field that is missing. This holds for both versions of
  the component.
\<close>

theorem defaults_for_falsy_fields:
  "(trim (url s) \<noteq> [] \<and> validateUrl env (trim (url s)) = Some v
      \<and> exchange_succeeds env (fetch_request backendUrl env v) data \<longrightarrow>
      (\<forall>x up. get env data (lit ''status'') = Inr x \<and> \<not> truthy x
            \<and> get env data (lit ''is_up'') = Inr up \<longrightarrow>
          displayed_field (checkWebsite env s) (lit ''status'') =
            Some (JStr (if truthy up then lit ''UP'' else lit ''DOWN'')))
      \<and> (\<forall>y z. get env data (lit ''response_time'') = Inr y \<and> \<not> truthy y
            \<and> get env data (lit ''responseTime'') = Inr z \<and> \<not> truthy z \<longrightarrow>
          displayed_field (checkWebsite env s) (lit ''responseTime'') = Some (JNum (Fin 0)))
      \<and> (\<forall>m. get env data (lit ''message'') = Inr m \<and> \<not> truthy m \<longrightarrow>
          displayed_field (checkWebsite env s) (lit ''message'') = Some (JStr [])))
   \<and> (trim (targetUrl urlOverride s) \<noteq> [] \<and> validateUrl env (trim (targetUrl urlOverride s)) = Some v'
      \<and> exchange_succeeds env (fetch_request backendUrl_quick env v') data' \<longrightarrow>
      (\<forall>x up. get env data' (lit ''status'') = Inr x \<and> \<not> truthy x
            \<and> get env data' (lit ''is_up'') = Inr up \<longrightarrow>
          displayed_field (checkWebsite_quick env urlOverride s) (lit ''status'') =
            Some (JStr (if truthy up then lit ''UP'' else lit ''DOWN'')))
      \<and> (\<forall>y z. get env data' (lit ''response_time'') = Inr y \<and> \<not> truthy y
            \<and> get env data' (lit ''responseTime'') = Inr z \<and> \<not> truthy z \<longrightarrow>
          displayed_field (checkWebsite_quick env urlOverride s) (lit ''responseTime'') = Some (JNum (Fin 0)))
      \<and> (\<forall>m. get env data' (lit ''message'') = Inr m \<and> \<not> truthy m \<longrightarrow>
          displayed_field (checkWebsite_quick env urlOverride s) (lit ''message'') = Some (JStr [])))"
proof (rule conjI; rule impI; elim conjE)
  assume a: "trim (url s) \<noteq> []" "validateUrl env (trim (url s)) = Some v"
    and e: "exchange_succeeds env (fetch_request backendUrl env v) data"
  from a have c: "checkWebsite env s =
      try_catch_finally backendUrl env v (s\<lparr>loading := True, error := [], status := JNull\<rparr>)"
    by (rule checkWebsite_valid)
  from defaults_bundle [OF e c]
  show "(\<forall>x up. get env data (lit ''status'') = Inr x \<and> \<not> truthy x
            \<and> get env data (lit ''is_up'') = Inr up \<longrightarrow>
          displayed_field (checkWebsite env s) (lit ''status'') =
            Some (JStr (if truthy up then lit ''UP'' else lit ''DOWN'')))
      \<and> (\<forall>y z. get env data (lit ''response_time'') = Inr y \<and> \<not> truthy y
            \<and> get env data (lit ''responseTime'') = Inr z \<and> \<not> truthy z \<longrightarrow>
          displayed_field (checkWebsite env s) (lit ''responseTime'') = Some (JNum (Fin 0)))
      \<and> (\<forall>m. get env data (lit ''message'') = Inr m \<and> \<not> truthy m \<longrightarrow>
          displayed_field (checkWebsite env s) (lit ''message'') = Some (JStr []))" .
next
  assume a: "trim (targetUrl urlOverride s) \<noteq> []" "validateUrl env (trim (targetUrl urlOverride s)) = Some v'"
    and e: "exchange_succeeds env (fetch_request backendUrl_quick env v') data'"
  from a have c: "checkWebsite_quick env urlOverride s =
     try_catch_finally backendUrl_quick env v'
       (s\<lparr>url := (case urlOverride of None \<Rightarrow> url s | Some u \<Rightarrow> if u \<noteq> [] then u else url s),
          loading := True, error := [], status := JNull\<rparr>)"
    by (rule checkWebsite_quick_valid)
  from defaults_bundle [OF e c]
  show "(\<forall>x up. get env data' (lit ''status'') = Inr x \<and> \<not> truthy x
            \<and> get env data' (lit ''is_up'') = Inr up \<longrightarrow>
          displayed_field (checkWebsite_quick env urlOverride s) (lit ''status'') =
            Some (JStr (if truthy up then lit ''UP'' else lit ''DOWN'')))
      \<and> (\<forall>y z. get env data' (lit ''response_time'') = Inr y \<and> \<not> truthy y
            \<and> get env data' (lit ''responseTime'') = Inr z \<and> \<not> truthy z \<longrightarrow>
          displayed_field (checkWebsite_quick env urlOverride s) (lit ''responseTime'') = Some (JNum (Fin 0)))
      \<and> (\<forall>m. get env data' (lit ''message'') = Inr m \<and> \<not> truthy m \<longrightarrow>
          displayed_field (checkWebsite_quick env urlOverride s) (lit ''message'') = Some (JStr []))" .
qed

theorem defaults_for_falsy_fields_witness:
  "displayed_field (checkWebsite env_empty_object (typed ''google.com'')) (lit ''status'') =
     Some (JStr (lit ''DOWN''))
   \<and> displayed_field (checkWebsite env_empty_object (typed ''google.com'')) (lit ''responseTime'') =
     Some (JNum (Fin 0))
   \<and> displayed_field (checkWebsite env_empty_object (typed ''google.com'')) (lit ''message'') =
     Some (JStr [])
   \<and> displayed_field (checkWebsite_quick env_empty_object None (typed ''google.com'')) (lit ''status'') =
     Some (JStr (lit ''DOWN''))
   \<and> displayed_field (checkWebsite_quick env_empty_object None (typed ''google.com'')) (lit ''responseTime'') =
     Some (JNum (Fin 0))
   \<and> displayed_field (checkWebsite_quick env_empty_object None (typed ''google.com'')) (lit ''message'') =
     Some (JStr [])"
proof -
  note t = defaults_for_falsy_fields [of "typed ''google.com''" env_empty_object
      "lit ''https://google.com''" "JObj []" None "lit ''https://google.com''" "JObj []"]
  have h: "trim (url (typed ''google.com'')) \<noteq> []"
    "validateUrl env_empty_object (trim (url (typed ''google.com''))) = Some (lit ''https://google.com'')"
    "trim (targetUrl None (typed ''google.com'')) \<noteq> []"
    "validateUrl env_empty_object (trim (targetUrl None (typed ''google.com''))) = Some (lit ''https://google.com'')"
    by (simp_all add: env_empty_object_def)
  have e: "exchange_succeeds env_empty_object (fetch_request backendUrl env_empty_object (lit ''https://google.com'')) (JObj [])"
    "exchange_succeeds env_empty_object (fetch_request backendUrl_quick env_empty_object (lit ''https://google.com'')) (JObj [])"
    unfolding env_empty_object_def by (rule exchange_succeeds_env_with)+
  have g: "get env_empty_object (JObj []) k = Inr JUndefined" "\<not> truthy JUndefined" for k
    by simp_all
  have 1: "displayed_field (checkWebsite env_empty_object (typed ''google.com'')) (lit ''status'') =
      Some (JStr (if truthy JUndefined then lit ''UP'' else lit ''DOWN''))"
    using t h e g by blast
  have 2: "displayed_field (checkWebsite env_empty_object (typed ''google.com'')) (lit ''responseTime'') =
      Some (JNum (Fin 0))"
    using t h e g by blast
  have 3: "displayed_field (checkWebsite env_empty_object (typed ''google.com'')) (lit ''message'') =
      Some (JStr [])"
    using t h e g by blast
  have 4: "displayed_field (checkWebsite_quick env_empty_object None (typed ''google.com'')) (lit ''status'') =
      Some (JStr (if truthy JUndefined then lit ''UP'' else lit ''DOWN''))"
    using t h e g by blast
  have 5: "displayed_field (checkWebsite_quick env_empty_object None (typed ''google.com'')) (lit ''responseTime'') =
      Some (JNum (Fin 0))"
    using t h e g by blast
  have 6: "displayed_field (checkWebsite_quick env_empty_object None (typed ''google.com'')) (lit ''message'') =
      Some (JStr [])"
    using t h e g by blast
  from 1 2 3 4 5 6 show ?thesis by simp
qed

section \<open>The bounded history\<close>



end
